theory Spec2Isabelle
  imports Complex_Main "HOL-Library.Sublist"
begin

section \<open>JavaScript values\<close>

text \<open>
  A JavaScript \<open>number\<close> is an IEEE-754 double. The model keeps the three kinds of
  special value apart from the finite ones, because the comparisons and divisions of the
  source behave differently on them: every comparison with \<open>NaN\<close> is false, and a
  division by zero does not raise but yields \<open>NaN\<close> or an infinity. A finite
  double is the rational number it denotes. The two zeros are one value, \<open>Fin 0\<close>:
  the source divides only by a length or by the root of a mean of squares, which are
  never \<open>-0\<close>, and its comparisons do not tell the zeros apart.
\<close>

datatype jsnum = NaN | PInf | NInf | Fin rat

text \<open>\<open>a <= b\<close> of JavaScript.\<close>

fun js_le :: "jsnum \<Rightarrow> jsnum \<Rightarrow> bool" where
  "js_le NaN b = False"
| "js_le a NaN = False"
| "js_le NInf b = True"
| "js_le a PInf = True"
| "js_le PInf b = False"
| "js_le a NInf = False"
| "js_le (Fin a) (Fin b) = (a \<le> b)"

text \<open>\<open>a >= b\<close> of JavaScript.\<close>

definition js_ge :: "jsnum \<Rightarrow> jsnum \<Rightarrow> bool" where
  "js_ge a b = js_le b a"

text \<open>\<open>isNaN(a)\<close> on a number.\<close>

definition isNaN :: "jsnum \<Rightarrow> bool" where
  "isNaN a = (a = NaN)"

subsection \<open>Double rounding of the percentage\<close>

text \<open>
  \<open>riskScore / 120 * 100\<close> is computed in doubles: the quotient of the two integers
  is rounded to the nearest double, and so is its product with 100. A positive double in
  the normal range is \<open>m * 2^e\<close> with a mantissa \<open>m\<close> of 53 bits; the pair
  \<open>(m, e)\<close> stands for it. \<open>fl_quot a b\<close> is the double nearest to the exact
  quotient \<open>a / b\<close> of two non-negative integers, a tie going to the even mantissa
  (the default rounding of IEEE-754). The exponent is not bounded, which is exact on the
  range of the source's expression (between 0 and 115).
\<close>

type_synonym double = "int \<times> int"

text \<open>The number of binary digits of a positive integer.\<close>

function bitlen :: "int \<Rightarrow> int" where
  "bitlen n = (if n \<le> 0 then 0 else 1 + bitlen (n div 2))"
  by pat_completeness auto
termination
  by (relation "measure nat") auto

declare bitlen.simps [simp del]

text \<open>\<open>a / b\<close> rounded to the nearest integer, a tie going to the even one.\<close>

definition div_half_even :: "int \<Rightarrow> int \<Rightarrow> int" where
  "div_half_even a b =
     (let q = a div b; r = a mod b
      in if 2 * r < b then q else if b < 2 * r then q + 1
         else if even q then q else q + 1)"

text \<open>
  The binary exponent of \<open>a / b\<close>: the \<open>k\<close> with \<open>2^k <= a / b < 2^(k+1)\<close>. The
  difference of the bit lengths is that \<open>k\<close> or one more.
\<close>

definition ilog2 :: "int \<Rightarrow> int \<Rightarrow> int" where
  "ilog2 a b =
     (let k = bitlen a - bitlen b
      in if (if 0 \<le> k then b * 2 ^ nat k \<le> a else b \<le> a * 2 ^ nat (- k)) then k else k - 1)"

definition fl_quot :: "int \<Rightarrow> int \<Rightarrow> double" where
  "fl_quot a b =
     (if a = 0 then (0, 0)
      else let e = ilog2 a b - 52
           in if 0 \<le> e then (div_half_even a (b * 2 ^ nat e), e)
              else (div_half_even (a * 2 ^ nat (- e)) b, e))"

text \<open>\<open>x * c\<close> for a double \<open>x\<close> and an integer \<open>c\<close>: the exact product, rounded.\<close>

definition dbl_mul :: "double \<Rightarrow> int \<Rightarrow> double" where
  "dbl_mul x c =
     (case x of (m, e) \<Rightarrow>
        if 0 \<le> e then fl_quot (m * c * 2 ^ nat e) 1 else fl_quot (m * c) (2 ^ nat (- e)))"

text \<open>
  \<open>Math.round\<close> of a non-negative double: the nearest integer, a tie going up, which
  is the floor of \<open>x + 1/2\<close> taken exactly.
\<close>

definition Math_round :: "double \<Rightarrow> int" where
  "Math_round x =
     (case x of (m, e) \<Rightarrow>
        if 0 \<le> e then m * 2 ^ nat e
        else (2 * m + 2 ^ nat (- e)) div (2 * 2 ^ nat (- e)))"

text \<open>The exact value of a double, to state what the model computes.\<close>

definition dbl_value :: "double \<Rightarrow> rat" where
  "dbl_value x =
     (case x of (m, e) \<Rightarrow>
        if 0 \<le> e then of_int (m * 2 ^ nat e) else of_int m / of_int (2 ^ nat (- e)))"

subsection \<open>Rounding to a double\<close>

text \<open>
  The arithmetic operators of JavaScript compute the exact result and round it to the
  nearest double, a tie going to the even mantissa. \<open>fl64\<close> is that rounding for
  binary64: 53 significant bits down to the exponent -1022, below it the fixed quantum
  \<open>2^(-1074)\<close> of the subnormal numbers, and an infinity once the rounded magnitude
  reaches \<open>2^1024\<close>.
\<close>

definition pow2 :: "int \<Rightarrow> rat" where
  "pow2 k = (if 0 \<le> k then 2 ^ nat k else 1 / 2 ^ nat (- k))"

definition fl64 :: "rat \<Rightarrow> jsnum" where
  "fl64 x =
     (if x = 0 then Fin 0
      else let (a, b) = quotient_of \<bar>x\<bar>;
               e = max (ilog2 a b) (- 1022) - 52;
               n = (if 0 \<le> e then div_half_even a (b * 2 ^ nat e)
                    else div_half_even (a * 2 ^ nat (- e)) b);
               y = of_int n * pow2 e
           in if 2 ^ 1024 \<le> y then (if 0 < x then PInf else NInf)
              else Fin (if 0 < x then y else - y))"

section \<open>The rule engine (diabetesPrediction.ts)\<close>

datatype Impact = Positive | Negative | Neutral

text \<open>
  A description is a string, some of them built by a template literal around a number.
  The model keeps the pieces of the template: JavaScript's conversion of the number to
  text is not modelled, and two descriptions with the same pieces are the same string.
\<close>

datatype piece = Str string | Num jsnum

record RiskFactor =
  name :: string
  impact :: Impact
  description :: "piece list"

datatype RiskLevel = Low | Medium | High

text \<open>
  \<open>HealthData\<close>: the two numbers the engine reads are JavaScript numbers; the
  categorical fields are strings at run time, and the engine's \<open>else\<close> branches take
  every string its tests do not name.
\<close>

record HealthData =
  age :: jsnum
  gender :: string
  height :: jsnum
  weight :: jsnum
  bmi :: jsnum
  familyHistory :: string
  physicalActivity :: string
  dietType :: string
  smokingStatus :: string
  alcoholIntake :: string
  stressLevel :: string
  hypertension :: string

text \<open>
  \<open>RiskResult\<close>. TypeScript's field types are erased at run time: the rule engine
  builds the level and the percentage itself (a \<open>RiskLevel\<close> and an integer), while
  \<open>predictDiabetesRisk\<close> stores what a JSON body holds. The two fields are therefore
  type parameters; modelPrediction.ts extends the record by \<open>modelUsed\<close>.
\<close>

record ('l, 'p) RiskResult =
  riskLevel :: 'l
  riskPercentage :: 'p
  factors :: "RiskFactor list"
  recommendations :: "string list"

text \<open>
  The three local variables of \<open>calculateDiabetesRisk\<close>. \<open>riskScore\<close> starts at 0
  and only ever grows by integer constants, so it is a natural number.
\<close>

record locals =
  riskScore :: nat
  vFactors :: "RiskFactor list"
  vRecommendations :: "string list"

definition init_locals :: locals where
  "init_locals = \<lparr>riskScore = 0, vFactors = [], vRecommendations = []\<rparr>"

text \<open>\<open>riskScore += n\<close>, \<open>factors.push(f)\<close>, \<open>recommendations.push(r)\<close>.\<close>

definition add_score :: "nat \<Rightarrow> locals \<Rightarrow> locals" where
  "add_score n st = st\<lparr>riskScore := riskScore st + n\<rparr>"

definition push_factor :: "RiskFactor \<Rightarrow> locals \<Rightarrow> locals" where
  "push_factor f st = st\<lparr>vFactors := vFactors st @ [f]\<rparr>"

definition push_rec :: "string \<Rightarrow> locals \<Rightarrow> locals" where
  "push_rec r st = st\<lparr>vRecommendations := vRecommendations st @ [r]\<rparr>"

text \<open>The records that \<open>calculateDiabetesRisk\<close> and \<open>generateFactors\<close> push.\<close>

definition age_high :: "HealthData \<Rightarrow> RiskFactor" where
  "age_high d = \<lparr>name = ''Age Factor'', impact = Negative,
     description = [Str ''Age '', Num (age d), Str '' increases diabetes risk significantly after 45'']\<rparr>"

definition age_mid :: "HealthData \<Rightarrow> RiskFactor" where
  "age_mid d = \<lparr>name = ''Age Factor'', impact = Negative,
     description = [Str ''Age '', Num (age d), Str '' shows moderate increased risk'']\<rparr>"

definition age_low :: "HealthData \<Rightarrow> RiskFactor" where
  "age_low d = \<lparr>name = ''Age Factor'', impact = Positive,
     description = [Str ''Age '', Num (age d), Str '' is associated with lower diabetes risk'']\<rparr>"

definition bmi_obese :: "HealthData \<Rightarrow> RiskFactor" where
  "bmi_obese d = \<lparr>name = ''BMI (Obesity)'', impact = Negative,
     description = [Str ''BMI of '', Num (bmi d), Str '' indicates obesity, a major diabetes risk factor'']\<rparr>"

definition bmi_over :: "HealthData \<Rightarrow> RiskFactor" where
  "bmi_over d = \<lparr>name = ''BMI (Overweight)'', impact = Negative,
     description = [Str ''BMI of '', Num (bmi d), Str '' indicates overweight status, increasing diabetes risk'']\<rparr>"

definition bmi_healthy :: "HealthData \<Rightarrow> RiskFactor" where
  "bmi_healthy d = \<lparr>name = ''BMI (Healthy)'', impact = Positive,
     description = [Str ''BMI of '', Num (bmi d), Str '' is in the healthy range, reducing diabetes risk'']\<rparr>"

definition bmi_under :: "HealthData \<Rightarrow> RiskFactor" where
  "bmi_under d = \<lparr>name = ''BMI (Underweight)'', impact = Neutral,
     description = [Str ''BMI of '', Num (bmi d), Str '' is below normal range'']\<rparr>"

definition family_yes :: RiskFactor where
  "family_yes = \<lparr>name = ''Family History'', impact = Negative,
     description = [Str ''Family history of diabetes significantly increases your risk'']\<rparr>"

definition family_no :: RiskFactor where
  "family_no = \<lparr>name = ''Family History'', impact = Positive,
     description = [Str ''No family history of diabetes reduces your overall risk'']\<rparr>"

definition activity_low :: RiskFactor where
  "activity_low = \<lparr>name = ''Physical Activity'', impact = Negative,
     description = [Str ''Low physical activity increases diabetes risk'']\<rparr>"

definition activity_moderate :: RiskFactor where
  "activity_moderate = \<lparr>name = ''Physical Activity'', impact = Neutral,
     description = [Str ''Moderate activity level provides some protection against diabetes'']\<rparr>"

definition activity_high :: RiskFactor where
  "activity_high = \<lparr>name = ''Physical Activity'', impact = Positive,
     description = [Str ''High physical activity significantly reduces diabetes risk'']\<rparr>"

definition diet_unhealthy :: RiskFactor where
  "diet_unhealthy = \<lparr>name = ''Diet Quality'', impact = Negative,
     description = [Str ''Unhealthy diet with high sugar and processed foods increases risk'']\<rparr>"

definition diet_balanced :: RiskFactor where
  "diet_balanced = \<lparr>name = ''Diet Quality'', impact = Neutral,
     description = [Str ''Balanced diet provides moderate protection against diabetes'']\<rparr>"

definition diet_healthy :: RiskFactor where
  "diet_healthy = \<lparr>name = ''Diet Quality'', impact = Positive,
     description = [Str ''Very healthy diet significantly reduces diabetes risk'']\<rparr>"

definition smoking_current :: RiskFactor where
  "smoking_current = \<lparr>name = ''Smoking Status'', impact = Negative,
     description = [Str ''Current smoking increases diabetes risk and complications'']\<rparr>"

definition smoking_former :: RiskFactor where
  "smoking_former = \<lparr>name = ''Smoking Status'', impact = Neutral,
     description = [Str ''Former smoking status has reduced impact on current diabetes risk'']\<rparr>"

definition smoking_never :: RiskFactor where
  "smoking_never = \<lparr>name = ''Smoking Status'', impact = Positive,
     description = [Str ''Non-smoking status reduces diabetes and cardiovascular risks'']\<rparr>"

definition alcohol_regular :: RiskFactor where
  "alcohol_regular = \<lparr>name = ''Alcohol Consumption'', impact = Negative,
     description = [Str ''Regular alcohol consumption can affect blood sugar control'']\<rparr>"

definition alcohol_occasional :: RiskFactor where
  "alcohol_occasional = \<lparr>name = ''Alcohol Consumption'', impact = Neutral,
     description = [Str ''Occasional alcohol consumption has minimal impact on diabetes risk'']\<rparr>"

definition alcohol_none :: RiskFactor where
  "alcohol_none = \<lparr>name = ''Alcohol Consumption'', impact = Positive,
     description = [Str ''No alcohol consumption reduces diabetes risk factors'']\<rparr>"

definition stress_high :: RiskFactor where
  "stress_high = \<lparr>name = ''Stress Level'', impact = Negative,
     description = [Str ''High chronic stress can affect blood sugar regulation'']\<rparr>"

definition stress_medium :: RiskFactor where
  "stress_medium = \<lparr>name = ''Stress Level'', impact = Neutral,
     description = [Str ''Medium stress levels have moderate impact on diabetes risk'']\<rparr>"

definition stress_low :: RiskFactor where
  "stress_low = \<lparr>name = ''Stress Level'', impact = Positive,
     description = [Str ''Low stress levels support healthy blood sugar regulation'']\<rparr>"

definition hypertension_yes :: RiskFactor where
  "hypertension_yes = \<lparr>name = ''Hypertension'', impact = Negative,
     description = [Str ''High blood pressure significantly increases diabetes risk'']\<rparr>"

definition hypertension_no :: RiskFactor where
  "hypertension_no = \<lparr>name = ''Blood Pressure'', impact = Positive,
     description = [Str ''Normal blood pressure reduces diabetes and cardiovascular risks'']\<rparr>"

subsection \<open>The ten factor evaluations, in source order\<close>

definition ageFactor :: "HealthData \<Rightarrow> locals \<Rightarrow> locals" where
  "ageFactor d st =
     (if js_ge (age d) (Fin 45) then push_factor (age_high d) (add_score 15 st)
      else if js_ge (age d) (Fin 35) then push_factor (age_mid d) (add_score 8 st)
      else push_factor (age_low d) st)"

definition bmiFactor :: "HealthData \<Rightarrow> locals \<Rightarrow> locals" where
  "bmiFactor d st =
     (if js_ge (bmi d) (Fin 30) then
        push_rec ''Consider consulting with a registered dietitian for personalized nutrition guidance''
          (push_rec ''Work with a healthcare provider to develop a sustainable weight management plan''
            (push_factor (bmi_obese d) (add_score 25 st)))
      else if js_ge (bmi d) (Fin 25) then
        push_rec ''Aim for gradual weight loss through balanced diet and regular exercise''
          (push_factor (bmi_over d) (add_score 15 st))
      else if js_ge (bmi d) (Fin 18.5) then push_factor (bmi_healthy d) st
      else push_factor (bmi_under d) st)"

definition familyFactor :: "HealthData \<Rightarrow> locals \<Rightarrow> locals" where
  "familyFactor d st =
     (if familyHistory d = ''Yes'' then
        push_rec ''Schedule regular diabetes screenings with your healthcare provider''
          (push_factor family_yes (add_score 20 st))
      else push_factor family_no st)"

definition activityFactor :: "HealthData \<Rightarrow> locals \<Rightarrow> locals" where
  "activityFactor d st =
     (if physicalActivity d = ''Low'' then
        push_rec ''Start with short walks and gradually increase activity level''
          (push_rec ''Aim for at least 150 minutes of moderate-intensity exercise per week''
            (push_factor activity_low (add_score 15 st)))
      else if physicalActivity d = ''Moderate'' then
        push_rec ''Consider increasing to high activity level for maximum health benefits''
          (push_factor activity_moderate (add_score 5 st))
      else push_factor activity_high st)"

definition dietFactor :: "HealthData \<Rightarrow> locals \<Rightarrow> locals" where
  "dietFactor d st =
     (if dietType d = ''Unhealthy'' then
        push_rec ''Limit sugary drinks, processed foods, and refined carbohydrates''
          (push_rec ''Focus on whole foods: vegetables, lean proteins, whole grains, and healthy fats''
            (push_factor diet_unhealthy (add_score 15 st)))
      else if dietType d = ''Balanced'' then
        push_rec ''Continue maintaining a balanced diet with plenty of vegetables and whole grains''
          (push_factor diet_balanced (add_score 3 st))
      else push_factor diet_healthy st)"

definition smokingFactor :: "HealthData \<Rightarrow> locals \<Rightarrow> locals" where
  "smokingFactor d st =
     (if smokingStatus d = ''Smoker'' then
        push_rec ''Consider smoking cessation programs - quitting reduces diabetes risk within years''
          (push_factor smoking_current (add_score 12 st))
      else if smokingStatus d = ''Former Smoker'' then
        push_factor smoking_former (add_score 3 st)
      else push_factor smoking_never st)"

definition alcoholFactor :: "HealthData \<Rightarrow> locals \<Rightarrow> locals" where
  "alcoholFactor d st =
     (if alcoholIntake d = ''Yes'' then
        push_rec ''Consider reducing alcohol intake to moderate levels or eliminating entirely''
          (push_factor alcohol_regular (add_score 8 st))
      else if alcoholIntake d = ''Occasional'' then
        push_factor alcohol_occasional (add_score 2 st)
      else push_factor alcohol_none st)"

definition stressFactor :: "HealthData \<Rightarrow> locals \<Rightarrow> locals" where
  "stressFactor d st =
     (if stressLevel d = ''High'' then
        push_rec ''Consider counseling or therapy if stress feels overwhelming''
          (push_rec ''Practice stress management techniques like meditation, yoga, or deep breathing''
            (push_factor stress_high (add_score 10 st)))
      else if stressLevel d = ''Medium'' then
        push_rec ''Implement regular stress-reduction activities in your routine''
          (push_factor stress_medium (add_score 4 st))
      else push_factor stress_low st)"

definition hypertensionFactor :: "HealthData \<Rightarrow> locals \<Rightarrow> locals" where
  "hypertensionFactor d st =
     (if hypertension d = ''Yes'' then
        push_rec ''Follow a DASH diet (low sodium, high potassium) for blood pressure control''
          (push_rec ''Work closely with your healthcare provider to manage blood pressure''
            (push_factor hypertension_yes (add_score 15 st)))
      else push_factor hypertension_no st)"

text \<open>The gender adjustment adds to the score and pushes nothing.\<close>

definition genderFactor :: "HealthData \<Rightarrow> locals \<Rightarrow> locals" where
  "genderFactor d st = (if gender d = ''Male'' then add_score 2 st else st)"

text \<open>The state of the locals after the ten evaluations (source lines 21 to 240).\<close>

definition evaluateFactors :: "HealthData \<Rightarrow> locals" where
  "evaluateFactors d =
     genderFactor d (hypertensionFactor d (stressFactor d (alcoholFactor d
       (smokingFactor d (dietFactor d (activityFactor d (familyFactor d
         (bmiFactor d (ageFactor d init_locals)))))))))"

subsection \<open>General recommendations, percentage and level\<close>

text \<open>\<open>recommendations.unshift(a)\<close> followed by \<open>recommendations.push(b)\<close>.\<close>

definition tierRecommendations :: "locals \<Rightarrow> locals" where
  "tierRecommendations st =
     (if riskScore st \<le> 30 then
        st\<lparr>vRecommendations :=
          ''Maintain your current healthy lifestyle habits'' # vRecommendations st
            @ [''Continue regular health check-ups every 2-3 years'']\<rparr>
      else if riskScore st \<le> 60 then
        st\<lparr>vRecommendations :=
          ''Schedule a consultation with your healthcare provider within 6 months'' # vRecommendations st
            @ [''Consider annual diabetes screening'']\<rparr>
      else
        st\<lparr>vRecommendations :=
          ''Schedule an urgent consultation with your healthcare provider'' # vRecommendations st
            @ [''Request comprehensive diabetes screening including HbA1c and fasting glucose tests'']\<rparr>)"

text \<open>\<open>Math.min(Math.round((riskScore / 120) * 100), 95)\<close>, in double arithmetic.\<close>

definition percentageOf :: "nat \<Rightarrow> int" where
  "percentageOf s = min (Math_round (dbl_mul (fl_quot (int s) 120) 100)) 95"

definition levelOf :: "nat \<Rightarrow> RiskLevel" where
  "levelOf s = (if s \<le> 30 then Low else if s \<le> 60 then Medium else High)"

definition calculateDiabetesRisk ::
    "HealthData \<Rightarrow> (RiskLevel, int) RiskResult" where
  "calculateDiabetesRisk d =
     (let st = tierRecommendations (evaluateFactors d)
      in \<lparr>riskLevel = levelOf (riskScore st),
          riskPercentage = percentageOf (riskScore st),
          factors = vFactors st,
          recommendations = vRecommendations st\<rparr>)"

text \<open>The raw score: the value of \<open>riskScore\<close> when the function returns.\<close>

definition rawScore :: "HealthData \<Rightarrow> nat" where
  "rawScore d = riskScore (evaluateFactors d)"

section \<open>The orchestrator (modelPrediction.ts)\<close>

text \<open>
  What \<open>response.json()\<close> can hold. An object is the list of its own properties.
\<close>

datatype jsval =
    JUndefined
  | JNull
  | JBool bool
  | JNum jsnum
  | JStr string
  | JArr "jsval list"
  | JObj "(string \<times> jsval) list"

text \<open>
  Reading the property \<open>k\<close> of a value, for the two names the source reads
  (\<open>riskLevel\<close> and \<open>riskPercentage\<close>, which no prototype defines): on \<open>null\<close>
  and \<open>undefined\<close> the read throws a TypeError (\<open>None\<close>); on an object it gives the
  property or \<open>undefined\<close>; on every other value it gives \<open>undefined\<close>.
\<close>

fun get_prop :: "jsval \<Rightarrow> string \<Rightarrow> jsval option" where
  "get_prop JUndefined k = None"
| "get_prop JNull k = None"
| "get_prop (JObj kvs) k = Some (case map_of kvs k of None \<Rightarrow> JUndefined | Some v \<Rightarrow> v)"
| "get_prop v k = Some JUndefined"

datatype ModelUsed = Trained | RuleBased

record ('l, 'p) ModelRiskResult = "('l, 'p) RiskResult" +
  modelUsed :: ModelUsed

text \<open>The string a \<open>RiskLevel\<close> is at run time.\<close>

fun level_string :: "RiskLevel \<Rightarrow> string" where
  "level_string Low = ''Low''"
| "level_string Medium = ''Medium''"
| "level_string High = ''High''"

text \<open>
  \<open>generateFactors\<close> pushes onto a local array; the model writes each \<open>if\<close> chain as
  the list of what it pushes and appends the five lists in source order.
\<close>

definition generateFactors :: "HealthData \<Rightarrow> RiskFactor list" where
  "generateFactors d =
     (if js_ge (age d) (Fin 45) then [age_high d]
      else if js_ge (age d) (Fin 35) then [age_mid d]
      else [age_low d])
     @ (if js_ge (bmi d) (Fin 30) then [bmi_obese d]
        else if js_ge (bmi d) (Fin 25) then [bmi_over d]
        else if js_ge (bmi d) (Fin 18.5) then [bmi_healthy d]
        else [])
     @ (if familyHistory d = ''Yes'' then [family_yes] else [])
     @ (if physicalActivity d = ''Low'' then [activity_low]
        else if physicalActivity d = ''High'' then [activity_high]
        else [])
     @ (if hypertension d = ''Yes'' then [hypertension_yes] else [])"

definition generateRecommendations :: "HealthData \<Rightarrow> jsval \<Rightarrow> string list" where
  "generateRecommendations d lvl =
     (if lvl = JStr ''Low'' then
        [''Maintain your current healthy lifestyle habits'',
         ''Continue regular health check-ups every 2-3 years'']
      else if lvl = JStr ''Medium'' then
        [''Schedule a consultation with your healthcare provider within 6 months'',
         ''Consider annual diabetes screening'']
      else
        [''Schedule an urgent consultation with your healthcare provider'',
         ''Request comprehensive diabetes screening including HbA1c and fasting glucose tests''])
     @ (if js_ge (bmi d) (Fin 25) then
          [''Work with a healthcare provider to develop a sustainable weight management plan'']
        else [])
     @ (if physicalActivity d = ''Low'' then
          [''Aim for at least 150 minutes of moderate-intensity exercise per week'']
        else [])
     @ (if dietType d = ''Unhealthy'' then
          [''Focus on whole foods: vegetables, lean proteins, whole grains, and healthy fats'']
        else [])
     @ (if smokingStatus d = ''Smoker'' then
          [''Consider smoking cessation programs - quitting reduces diabetes risk within years'']
        else [])
     @ (if stressLevel d = ''High'' then
          [''Practice stress management techniques like meditation, yoga, or deep breathing'']
        else [])"

text \<open>
  \<open>useRuleBasedModel\<close> loads the rule engine with \<open>require('./diabetesPrediction')\<close>.
  The file is written as an ES module (it has \<open>import\<close> and \<open>export\<close> statements),
  and \<open>require\<close> is not a binding of the language: where the host gives none, as a
  browser does for an ES module, evaluating the name throws a ReferenceError; where the
  file is run as CommonJS, or a bundler supplies the function, the call gives the module.
  The binding is a parameter of the model.
\<close>

datatype require_binding = RequireDefined | RequireUndefined

datatype js_error = ReferenceError

definition useRuleBasedModel ::
    "require_binding \<Rightarrow> HealthData \<Rightarrow> js_error + (jsval, jsval) ModelRiskResult" where
  "useRuleBasedModel req d =
     (case req of
        RequireUndefined \<Rightarrow> Inl ReferenceError
      | RequireDefined \<Rightarrow>
          (let result = calculateDiabetesRisk d
           in Inr \<lparr>riskLevel = JStr (level_string (riskLevel result)),
                   riskPercentage = JNum (Fin (of_int (riskPercentage result))),
                   factors = factors result,
                   recommendations =
                     ''Prediction made using rule-based algorithm'' # recommendations result,
                   modelUsed = RuleBased\<rparr>))"

text \<open>
  What the remote call does, as \<open>predictDiabetesRisk\<close> sees it. \<open>Rejected\<close>: the
  \<open>fetch\<close> promise rejects, by the abort that the 5 second timer raises or by a network
  failure. \<open>Response ok body\<close>: a response arrived, with its \<open>ok\<close> flag and with
  what \<open>response.json()\<close> would do: reject on a malformed body, resolve to a value, or
  stay pending when the body never ends. The timer is cleared as soon as the response
  arrives, before the body is read, so nothing aborts a body that stalls.
\<close>

datatype json_outcome = Malformed | Parsed jsval | Stalled

datatype fetch_outcome = Rejected | Response bool json_outcome

text \<open>
  How the promise that an \<open>async\<close> function returns ends: fulfilled with a value,
  rejected with an error, or never settled.
\<close>

datatype 'a settled = Fulfilled 'a | RejectedWith js_error | NeverSettles

text \<open>
  \<open>return useRuleBasedModel(data)\<close> at the end of \<open>predictDiabetesRisk\<close>, outside
  the \<open>try\<close> block: what the call throws rejects the promise.
\<close>

definition fallback ::
    "require_binding \<Rightarrow> HealthData \<Rightarrow> (jsval, jsval) ModelRiskResult settled" where
  "fallback req d =
     (case useRuleBasedModel req d of Inl e \<Rightarrow> RejectedWith e | Inr r \<Rightarrow> Fulfilled r)"

text \<open>
  Every exception inside the \<open>try\<close> block is caught and leads to the rule-based call
  after it, as does a response that is not \<open>ok\<close>.
\<close>

definition predictDiabetesRisk ::
    "require_binding \<Rightarrow> HealthData \<Rightarrow> fetch_outcome
       \<Rightarrow> (jsval, jsval) ModelRiskResult settled" where
  "predictDiabetesRisk req d out =
     (case out of
        Rejected \<Rightarrow> fallback req d
      | Response ok body \<Rightarrow>
          if ok then
            (case body of
               Malformed \<Rightarrow> fallback req d
             | Stalled \<Rightarrow> NeverSettles
             | Parsed result \<Rightarrow>
                 (case get_prop result ''riskLevel'' of
                    None \<Rightarrow> fallback req d
                  | Some lvl \<Rightarrow>
                      (case get_prop result ''riskPercentage'' of
                         None \<Rightarrow> fallback req d
                       | Some pct \<Rightarrow>
                           Fulfilled
                             \<lparr>riskLevel = lvl,
                              riskPercentage = pct,
                              factors = generateFactors d,
                              recommendations = generateRecommendations d lvl,
                              modelUsed = Trained\<rparr>)))
          else fallback req d)"

section \<open>The serving side: dataset processing and encoding\<close>

subsection \<open>Arithmetic on numbers\<close>

text \<open>
  The operators \<open>+\<close>, \<open>-\<close> and \<open>/\<close> on numbers: on finite values the exact result
  rounded by \<open>fl64\<close>, on the special values what IEEE-754 says. A divisor that is zero
  is \<open>+0\<close>.
\<close>

fun js_add :: "jsnum \<Rightarrow> jsnum \<Rightarrow> jsnum" where
  "js_add NaN b = NaN"
| "js_add a NaN = NaN"
| "js_add PInf NInf = NaN"
| "js_add NInf PInf = NaN"
| "js_add PInf b = PInf"
| "js_add a PInf = PInf"
| "js_add NInf b = NInf"
| "js_add a NInf = NInf"
| "js_add (Fin a) (Fin b) = fl64 (a + b)"

fun js_sub :: "jsnum \<Rightarrow> jsnum \<Rightarrow> jsnum" where
  "js_sub NaN b = NaN"
| "js_sub a NaN = NaN"
| "js_sub PInf PInf = NaN"
| "js_sub NInf NInf = NaN"
| "js_sub PInf b = PInf"
| "js_sub a PInf = NInf"
| "js_sub NInf b = NInf"
| "js_sub a NInf = PInf"
| "js_sub (Fin a) (Fin b) = fl64 (a - b)"

fun js_div :: "jsnum \<Rightarrow> jsnum \<Rightarrow> jsnum" where
  "js_div NaN b = NaN"
| "js_div a NaN = NaN"
| "js_div (Fin a) (Fin b) =
     (if b = 0 then (if a = 0 then NaN else if 0 < a then PInf else NInf) else fl64 (a / b))"
| "js_div (Fin a) b = Fin 0"
| "js_div PInf (Fin b) = (if 0 \<le> b then PInf else NInf)"
| "js_div NInf (Fin b) = (if 0 \<le> b then NInf else PInf)"
| "js_div a b = NaN"

text \<open>
  \<open>Math.pow(x, 2)\<close> and \<open>Math.sqrt(x)\<close>. ECMAScript fixes their results on the
  special values and on zero and leaves the others to the implementation, as an
  approximation of the exact result. The two approximations, on a finite argument that
  is not zero (and is positive, for the root), are parameters of the model.
\<close>

record mathlib =
  pow2_approx :: "rat \<Rightarrow> jsnum"
  sqrt_approx :: "rat \<Rightarrow> jsnum"

fun Math_pow2 :: "mathlib \<Rightarrow> jsnum \<Rightarrow> jsnum" where
  "Math_pow2 M NaN = NaN"
| "Math_pow2 M PInf = PInf"
| "Math_pow2 M NInf = PInf"
| "Math_pow2 M (Fin a) = (if a = 0 then Fin 0 else pow2_approx M a)"

fun Math_sqrt :: "mathlib \<Rightarrow> jsnum \<Rightarrow> jsnum" where
  "Math_sqrt M NaN = NaN"
| "Math_sqrt M PInf = PInf"
| "Math_sqrt M NInf = NaN"
| "Math_sqrt M (Fin a) = (if a < 0 then NaN else if a = 0 then Fin 0 else sqrt_approx M a)"

subsection \<open>Code tables\<close>

text \<open>
  The tables of the serving side, used by training and by \<open>/api/predict\<close> alike.
  A table is an object literal: the list of its own properties, over the members it
  inherits from \<open>Object.prototype\<close>.
\<close>

definition genderMap :: "(string \<times> rat) list" where
  "genderMap = [(''Male'', 1), (''Female'', 0), (''Other'', 0.5)]"

definition binaryMap :: "(string \<times> rat) list" where
  "binaryMap = [(''Yes'', 1), (''No'', 0)]"

definition activityMap :: "(string \<times> rat) list" where
  "activityMap = [(''Low'', 0), (''Medium'', 1), (''High'', 2)]"

definition dietMap :: "(string \<times> rat) list" where
  "dietMap = [(''Non-Vegetarian'', 0), (''Vegetarian'', 1), (''Vegan'', 2)]"

definition smokingMap :: "(string \<times> rat) list" where
  "smokingMap = [(''Never'', 0), (''Current'', 2), (''Former'', 1)]"

definition alcoholMap :: "(string \<times> rat) list" where
  "alcoholMap = [(''None'', 0), (''Moderate'', 1), (''High'', 2)]"

definition stressMap :: "(string \<times> rat) list" where
  "stressMap = [(''Low'', 0), (''Medium'', 1), (''High'', 2)]"

text \<open>The names of the members every object literal inherits.\<close>

definition objectPrototypeKeys :: "string list" where
  "objectPrototypeKeys =
     [''constructor'', ''__proto__'', ''hasOwnProperty'', ''isPrototypeOf'',
      ''propertyIsEnumerable'', ''toLocaleString'', ''toString'', ''valueOf'',
      ''__defineGetter__'', ''__defineSetter__'', ''__lookupGetter__'', ''__lookupSetter__'']"

text \<open>
  What a lookup leaves in a feature vector or as a label: a number, or the inherited
  member of that name (a function, or the prototype itself), which is not a number.
\<close>

datatype tabval = Val jsnum | Inherited string

text \<open>
  \<open>table[key] || 0\<close> and \<open>table[key] ?? 0\<close>: an own key gives its code, the name of
  an inherited member gives that member, which is truthy, and any other key gives 0. The
  two operators differ only on a stored value that is falsy, and the only one is 0.
\<close>

definition code_or_0 :: "(string \<times> rat) list \<Rightarrow> string \<Rightarrow> tabval" where
  "code_or_0 table k =
     (case map_of table k of
        Some c \<Rightarrow> Val (Fin c)
      | None \<Rightarrow> if k \<in> set objectPrototypeKeys then Inherited k else Val (Fin 0))"

text \<open>
  \<open>table[key] || key\<close>, on a table of non-empty strings: the remapped word, the
  inherited member of that name, or the word itself.
\<close>

datatype jskey = Word string | Member string

definition remap :: "(string \<times> string) list \<Rightarrow> string \<Rightarrow> jskey" where
  "remap table k =
     (case map_of table k of
        Some v \<Rightarrow> Word v
      | None \<Rightarrow> if k \<in> set objectPrototypeKeys then Member k else Word k)"

text \<open>
  \<open>table[x] || 0\<close> for what \<open>remap\<close> gives. A member used as a key is converted to
  a string (the source text of a function, or \<open>[object Object]\<close>), which is no key of
  any table and no name of an inherited member.
\<close>

fun code_or_0_key :: "(string \<times> rat) list \<Rightarrow> jskey \<Rightarrow> tabval" where
  "code_or_0_key table (Word k) = code_or_0 table k"
| "code_or_0_key table (Member m) = Val (Fin 0)"

subsection \<open>processData\<close>

text \<open>
  A row of the dataset. The seven numeric columns hold what \<open>parseFloat\<close> returns for
  the cell (\<open>NaN\<close> for a cell that does not start with a number, or a missing column);
  a categorical column holds the cell's text, the empty string standing also for a
  missing column, so that \<open>!row.Gender\<close> is \<open>Gender row = []\<close>.
\<close>

record row =
  Age :: jsnum
  Gender :: string
  BMI :: jsnum
  Family_History :: string
  Physical_Activity :: string
  Diet_Type :: string
  Smoking_Status :: string
  Alcohol_Intake :: string
  Stress_Level :: string
  Hypertension :: string
  Diabetes :: string
  Cholesterol_Level :: jsnum
  Fasting_Blood_Sugar :: jsnum
  HBA1C :: jsnum
  Heart_Rate :: jsnum
  Waist_Hip_Ratio :: jsnum

text \<open>The two tests that end an iteration with \<open>continue\<close>, the same in both loops.\<close>

definition invalidNumbers :: "row \<Rightarrow> bool" where
  "invalidNumbers r =
     (isNaN (Age r) \<or> isNaN (BMI r) \<or> js_le (Age r) (Fin 0) \<or> js_le (BMI r) (Fin 0))"

definition missingField :: "row \<Rightarrow> bool" where
  "missingField r =
     (Gender r = [] \<or> Family_History r = [] \<or> Physical_Activity r = [] \<or> Diet_Type r = []
      \<or> Smoking_Status r = [] \<or> Alcohol_Intake r = [] \<or> Stress_Level r = []
      \<or> Hypertension r = [] \<or> Diabetes r = [])"

text \<open>The seven arrays of the first pass.\<close>

record collected =
  ages :: "jsnum list"
  bmis :: "jsnum list"
  cholesterols :: "jsnum list"
  fastingSugars :: "jsnum list"
  hba1cs :: "jsnum list"
  heartRates :: "jsnum list"
  waistHipRatios :: "jsnum list"

definition no_data :: collected where
  "no_data = \<lparr>ages = [], bmis = [], cholesterols = [], fastingSugars = [], hba1cs = [],
     heartRates = [], waistHipRatios = []\<rparr>"

text \<open>\<open>if (!isNaN(v)) xs.push(v)\<close>.\<close>

definition push_number :: "jsnum \<Rightarrow> jsnum list \<Rightarrow> jsnum list" where
  "push_number v xs = (if \<not> isNaN v then xs @ [v] else xs)"

fun firstPass :: "row list \<Rightarrow> collected \<Rightarrow> collected" where
  "firstPass [] c = c"
| "firstPass (r # rs) c =
     (if invalidNumbers r then firstPass rs c
      else if missingField r then firstPass rs c
      else firstPass rs
        \<lparr>ages = ages c @ [Age r],
         bmis = bmis c @ [BMI r],
         cholesterols = push_number (Cholesterol_Level r) (cholesterols c),
         fastingSugars = push_number (Fasting_Blood_Sugar r) (fastingSugars c),
         hba1cs = push_number (HBA1C r) (hba1cs c),
         heartRates = push_number (Heart_Rate r) (heartRates c),
         waistHipRatios = push_number (Waist_Hip_Ratio r) (waistHipRatios c)\<rparr>)"

text \<open>
  \<open>xs.reduce((a, b) => a + b, 0) / xs.length\<close> and
  \<open>Math.sqrt(xs.reduce((sum, val) => sum + Math.pow(val - mean, 2), 0) / xs.length)\<close>.
\<close>

definition meanOf :: "jsnum list \<Rightarrow> jsnum" where
  "meanOf xs = js_div (foldl js_add (Fin 0) xs) (Fin (of_nat (length xs)))"

definition stdOf :: "mathlib \<Rightarrow> jsnum list \<Rightarrow> jsnum \<Rightarrow> jsnum" where
  "stdOf M xs m =
     Math_sqrt M
       (js_div (foldl (\<lambda>sum val. js_add sum (Math_pow2 M (js_sub val m))) (Fin 0) xs)
               (Fin (of_nat (length xs))))"

text \<open>The optional columns: \<open>xs.length > 0 ? ... : 0\<close> and \<open>xs.length > 0 ? ... : 1\<close>.\<close>

definition meanOpt :: "jsnum list \<Rightarrow> jsnum" where
  "meanOpt xs = (if 0 < length xs then meanOf xs else Fin 0)"

definition stdOpt :: "mathlib \<Rightarrow> jsnum list \<Rightarrow> jsnum \<Rightarrow> jsnum" where
  "stdOpt M xs m = (if 0 < length xs then stdOf M xs m else Fin 1)"

record stats =
  ageMean :: jsnum
  ageStd :: jsnum
  bmiMean :: jsnum
  bmiStd :: jsnum
  cholesterolMean :: jsnum
  cholesterolStd :: jsnum
  fastingSugarMean :: jsnum
  fastingSugarStd :: jsnum
  hba1cMean :: jsnum
  hba1cStd :: jsnum
  heartRateMean :: jsnum
  heartRateStd :: jsnum
  waistHipRatioMean :: jsnum
  waistHipRatioStd :: jsnum

definition statsOf :: "mathlib \<Rightarrow> collected \<Rightarrow> stats" where
  "statsOf M c =
     \<lparr>ageMean = meanOf (ages c),
      ageStd = stdOf M (ages c) (meanOf (ages c)),
      bmiMean = meanOf (bmis c),
      bmiStd = stdOf M (bmis c) (meanOf (bmis c)),
      cholesterolMean = meanOpt (cholesterols c),
      cholesterolStd = stdOpt M (cholesterols c) (meanOpt (cholesterols c)),
      fastingSugarMean = meanOpt (fastingSugars c),
      fastingSugarStd = stdOpt M (fastingSugars c) (meanOpt (fastingSugars c)),
      hba1cMean = meanOpt (hba1cs c),
      hba1cStd = stdOpt M (hba1cs c) (meanOpt (hba1cs c)),
      heartRateMean = meanOpt (heartRates c),
      heartRateStd = stdOpt M (heartRates c) (meanOpt (heartRates c)),
      waistHipRatioMean = meanOpt (waistHipRatios c),
      waistHipRatioStd = stdOpt M (waistHipRatios c) (meanOpt (waistHipRatios c))\<rparr>"

text \<open>\<open>(v - mean) / std\<close>, and \<open>!isNaN(v) ? (v - mean) / std : 0\<close>.\<close>

definition normalize :: "jsnum \<Rightarrow> jsnum \<Rightarrow> jsnum \<Rightarrow> jsnum" where
  "normalize v m sd = js_div (js_sub v m) sd"

definition normalizeOpt :: "jsnum \<Rightarrow> jsnum \<Rightarrow> jsnum \<Rightarrow> jsnum" where
  "normalizeOpt v m sd = (if \<not> isNaN v then normalize v m sd else Fin 0)"

text \<open>The array \<open>feature\<close> and the \<open>label\<close> of a row that passed both tests.\<close>

definition featureOf :: "stats \<Rightarrow> row \<Rightarrow> tabval list" where
  "featureOf st r =
     [Val (normalize (Age r) (ageMean st) (ageStd st)),
      code_or_0 genderMap (Gender r),
      Val (normalize (BMI r) (bmiMean st) (bmiStd st)),
      code_or_0 binaryMap (Family_History r),
      code_or_0 activityMap (Physical_Activity r),
      code_or_0 dietMap (Diet_Type r),
      code_or_0 smokingMap (Smoking_Status r),
      code_or_0 alcoholMap (Alcohol_Intake r),
      code_or_0 stressMap (Stress_Level r),
      code_or_0 binaryMap (Hypertension r),
      Val (normalizeOpt (Cholesterol_Level r) (cholesterolMean st) (cholesterolStd st)),
      Val (normalizeOpt (Fasting_Blood_Sugar r) (fastingSugarMean st) (fastingSugarStd st)),
      Val (normalizeOpt (HBA1C r) (hba1cMean st) (hba1cStd st)),
      Val (normalizeOpt (Heart_Rate r) (heartRateMean st) (heartRateStd st)),
      Val (normalizeOpt (Waist_Hip_Ratio r) (waistHipRatioMean st) (waistHipRatioStd st))]"

definition labelOf :: "row \<Rightarrow> tabval" where
  "labelOf r = code_or_0 binaryMap (Diabetes r)"

fun secondPass ::
    "stats \<Rightarrow> row list \<Rightarrow> tabval list list \<times> tabval list \<Rightarrow> tabval list list \<times> tabval list" where
  "secondPass st [] acc = acc"
| "secondPass st (r # rs) (features, labels) =
     (if invalidNumbers r then secondPass st rs (features, labels)
      else if missingField r then secondPass st rs (features, labels)
      else secondPass st rs (features @ [featureOf st r], labels @ [labelOf r]))"

text \<open>
  What \<open>processData\<close> returns, with the two numbers its first log line prints
  (\<open>Processed n valid records out of m\<close>: the length of \<open>features\<close> and the length
  of the dataset).
\<close>

record processed =
  pFeatures :: "tabval list list"
  pLabels :: "tabval list"
  pStats :: stats
  logged :: "nat \<times> nat"

definition processData :: "mathlib \<Rightarrow> row list \<Rightarrow> processed" where
  "processData M dataset =
     (let st = statsOf M (firstPass dataset no_data);
          (features, labels) = secondPass st dataset ([], [])
      in \<lparr>pFeatures = features, pLabels = labels, pStats = st,
          logged = (length features, length dataset)\<rparr>)"

subsection \<open>Encoding at inference\<close>

text \<open>The remapping of the form's words, in the handler of \<open>/api/predict\<close>.\<close>

definition formToCsvMap_dietType :: "(string \<times> string) list" where
  "formToCsvMap_dietType =
     [(''Very Healthy'', ''Vegan''), (''Balanced'', ''Vegetarian''), (''Unhealthy'', ''Non-Vegetarian'')]"

definition formToCsvMap_smokingStatus :: "(string \<times> string) list" where
  "formToCsvMap_smokingStatus =
     [(''Smoker'', ''Current''), (''Former Smoker'', ''Former''), (''Non-Smoker'', ''Never'')]"

definition formToCsvMap_alcoholIntake :: "(string \<times> string) list" where
  "formToCsvMap_alcoholIntake =
     [(''Yes'', ''High''), (''Occasional'', ''Moderate''), (''No'', ''None'')]"

text \<open>
  The array \<open>features\<close> that the handler of \<open>/api/predict\<close> builds from the request
  body and the statistics of training.
\<close>

definition api_predict_features :: "stats \<Rightarrow> HealthData \<Rightarrow> tabval list" where
  "api_predict_features st userData =
     [Val (normalize (age userData) (ageMean st) (ageStd st)),
      code_or_0 genderMap (gender userData),
      Val (normalize (bmi userData) (bmiMean st) (bmiStd st)),
      code_or_0 binaryMap (familyHistory userData),
      code_or_0 activityMap (physicalActivity userData),
      code_or_0_key dietMap (remap formToCsvMap_dietType (dietType userData)),
      code_or_0_key smokingMap (remap formToCsvMap_smokingStatus (smokingStatus userData)),
      code_or_0_key alcoholMap (remap formToCsvMap_alcoholIntake (alcoholIntake userData)),
      code_or_0 stressMap (stressLevel userData),
      code_or_0 binaryMap (hypertension userData),
      Val (Fin 0), Val (Fin 0), Val (Fin 0), Val (Fin 0), Val (Fin 0)]"

text \<open>
  The tables local to \<open>useTrainedModel\<close> in modelPrediction.ts, whose comment reads
  "Encode the input data the same way as training data (matching CSV values and
  backend)", and the array \<open>features\<close> it builds. Its remapping tables have the same
  entries as the handler's. The browser-side \<open>DatasetProcessor\<close> declares the same
  seven code tables for its own \<open>processData\<close>.
\<close>

definition client_genderMap :: "(string \<times> rat) list" where
  "client_genderMap = [(''Male'', 1), (''Female'', 0)]"

definition client_binaryMap :: "(string \<times> rat) list" where
  "client_binaryMap = [(''Yes'', 1), (''No'', 0)]"

definition client_activityMap :: "(string \<times> rat) list" where
  "client_activityMap = [(''Low'', 0), (''Moderate'', 1), (''High'', 2)]"

definition client_dietMap :: "(string \<times> rat) list" where
  "client_dietMap = [(''Non-Vegetarian'', 0), (''Vegetarian'', 1), (''Vegan'', 2)]"

definition client_smokingMap :: "(string \<times> rat) list" where
  "client_smokingMap = [(''Current'', 2), (''Former'', 1), (''Never'', 0)]"

definition client_alcoholMap :: "(string \<times> rat) list" where
  "client_alcoholMap = [(''High'', 2), (''Moderate'', 1), (''None'', 0)]"

definition client_stressMap :: "(string \<times> rat) list" where
  "client_stressMap = [(''High'', 2), (''Medium'', 1), (''Low'', 0)]"

definition useTrainedModel_features :: "HealthData \<Rightarrow> tabval list" where
  "useTrainedModel_features d =
     [Val (age d),
      code_or_0 client_genderMap (gender d),
      Val (bmi d),
      code_or_0 client_binaryMap (familyHistory d),
      code_or_0 client_activityMap (physicalActivity d),
      code_or_0_key client_dietMap (remap formToCsvMap_dietType (dietType d)),
      code_or_0_key client_smokingMap (remap formToCsvMap_smokingStatus (smokingStatus d)),
      code_or_0_key client_alcoholMap (remap formToCsvMap_alcoholIntake (alcoholIntake d)),
      code_or_0 client_stressMap (stressLevel d),
      code_or_0 client_binaryMap (hypertension d)]"

section \<open>Definitions for the statements\<close>

subsection \<open>The point table of the specification\<close>

text \<open>
  The table of section 4.2 of the specification, one function per row, and its total.
\<close>

definition agePoints :: "HealthData \<Rightarrow> nat" where
  "agePoints d = (if js_ge (age d) (Fin 45) then 15 else if js_ge (age d) (Fin 35) then 8 else 0)"

definition bmiPoints :: "HealthData \<Rightarrow> nat" where
  "bmiPoints d = (if js_ge (bmi d) (Fin 30) then 25 else if js_ge (bmi d) (Fin 25) then 15 else 0)"

definition familyPoints :: "HealthData \<Rightarrow> nat" where
  "familyPoints d = (if familyHistory d = ''Yes'' then 20 else 0)"

definition activityPoints :: "HealthData \<Rightarrow> nat" where
  "activityPoints d =
     (if physicalActivity d = ''Low'' then 15 else if physicalActivity d = ''Moderate'' then 5 else 0)"

definition dietPoints :: "HealthData \<Rightarrow> nat" where
  "dietPoints d = (if dietType d = ''Unhealthy'' then 15 else if dietType d = ''Balanced'' then 3 else 0)"

definition smokingPoints :: "HealthData \<Rightarrow> nat" where
  "smokingPoints d =
     (if smokingStatus d = ''Smoker'' then 12 else if smokingStatus d = ''Former Smoker'' then 3 else 0)"

definition alcoholPoints :: "HealthData \<Rightarrow> nat" where
  "alcoholPoints d =
     (if alcoholIntake d = ''Yes'' then 8 else if alcoholIntake d = ''Occasional'' then 2 else 0)"

definition stressPoints :: "HealthData \<Rightarrow> nat" where
  "stressPoints d = (if stressLevel d = ''High'' then 10 else if stressLevel d = ''Medium'' then 4 else 0)"

definition hypertensionPoints :: "HealthData \<Rightarrow> nat" where
  "hypertensionPoints d = (if hypertension d = ''Yes'' then 15 else 0)"

definition genderPoints :: "HealthData \<Rightarrow> nat" where
  "genderPoints d = (if gender d = ''Male'' then 2 else 0)"

definition pointTotal :: "HealthData \<Rightarrow> nat" where
  "pointTotal d =
     agePoints d + bmiPoints d + familyPoints d + activityPoints d + dietPoints d
     + smokingPoints d + alcoholPoints d + stressPoints d + hypertensionPoints d + genderPoints d"

subsection \<open>The record each evaluation pushes\<close>

definition ageRecord :: "HealthData \<Rightarrow> RiskFactor" where
  "ageRecord d =
     (if js_ge (age d) (Fin 45) then age_high d
      else if js_ge (age d) (Fin 35) then age_mid d else age_low d)"

definition bmiRecord :: "HealthData \<Rightarrow> RiskFactor" where
  "bmiRecord d =
     (if js_ge (bmi d) (Fin 30) then bmi_obese d
      else if js_ge (bmi d) (Fin 25) then bmi_over d
      else if js_ge (bmi d) (Fin 18.5) then bmi_healthy d else bmi_under d)"

definition familyRecord :: "HealthData \<Rightarrow> RiskFactor" where
  "familyRecord d = (if familyHistory d = ''Yes'' then family_yes else family_no)"

definition activityRecord :: "HealthData \<Rightarrow> RiskFactor" where
  "activityRecord d =
     (if physicalActivity d = ''Low'' then activity_low
      else if physicalActivity d = ''Moderate'' then activity_moderate else activity_high)"

definition dietRecord :: "HealthData \<Rightarrow> RiskFactor" where
  "dietRecord d =
     (if dietType d = ''Unhealthy'' then diet_unhealthy
      else if dietType d = ''Balanced'' then diet_balanced else diet_healthy)"

definition smokingRecord :: "HealthData \<Rightarrow> RiskFactor" where
  "smokingRecord d =
     (if smokingStatus d = ''Smoker'' then smoking_current
      else if smokingStatus d = ''Former Smoker'' then smoking_former else smoking_never)"

definition alcoholRecord :: "HealthData \<Rightarrow> RiskFactor" where
  "alcoholRecord d =
     (if alcoholIntake d = ''Yes'' then alcohol_regular
      else if alcoholIntake d = ''Occasional'' then alcohol_occasional else alcohol_none)"

definition stressRecord :: "HealthData \<Rightarrow> RiskFactor" where
  "stressRecord d =
     (if stressLevel d = ''High'' then stress_high
      else if stressLevel d = ''Medium'' then stress_medium else stress_low)"

definition hypertensionRecord :: "HealthData \<Rightarrow> RiskFactor" where
  "hypertensionRecord d = (if hypertension d = ''Yes'' then hypertension_yes else hypertension_no)"

text \<open>
  How the impact of a pushed record relates to the points added with it: \<open>negative\<close>
  goes with a positive number of points, \<open>positive\<close> with none, and \<open>neutral\<close> with
  at most 5.
\<close>

fun impact_fits :: "Impact \<Rightarrow> nat \<Rightarrow> bool" where
  "impact_fits Negative p = (0 < p)"
| "impact_fits Positive p = (p = 0)"
| "impact_fits Neutral p = (p \<le> 5)"

text \<open>
  An evaluation \<open>step\<close> adds the points \<open>pts\<close> and pushes the one record \<open>f\<close>,
  whose impact fits the points; or it adds the points and pushes nothing.
\<close>

definition adds_one_record ::
    "(locals \<Rightarrow> locals) \<Rightarrow> nat \<Rightarrow> RiskFactor \<Rightarrow> locals \<Rightarrow> bool" where
  "adds_one_record step pts f st =
     (riskScore (step st) = riskScore st + pts \<and> vFactors (step st) = vFactors st @ [f]
      \<and> impact_fits (impact f) pts)"

definition adds_no_record :: "(locals \<Rightarrow> locals) \<Rightarrow> nat \<Rightarrow> locals \<Rightarrow> bool" where
  "adds_no_record step pts st =
     (riskScore (step st) = riskScore st + pts \<and> vFactors (step st) = vFactors st)"

subsection \<open>The percentage in exact arithmetic\<close>

text \<open>
  The formula of the specification, \<open>min(round(rawScore/120*100), 95)\<close>, with the
  quotient and the product taken exactly and a tie rounded up.
\<close>

definition exactPercentage :: "nat \<Rightarrow> int" where
  "exactPercentage s = min \<lfloor>(of_nat s / 120 * 100 :: rat) + 1 / 2\<rfloor> 95"

subsection \<open>Profiles\<close>

text \<open>The hypothesis of the all-maxed property of section 8.\<close>

definition allFactorsMaxed :: "HealthData \<Rightarrow> bool" where
  "allFactorsMaxed d =
     (js_ge (age d) (Fin 45) \<and> js_ge (bmi d) (Fin 30) \<and> familyHistory d = ''Yes''
      \<and> physicalActivity d = ''Low'' \<and> dietType d = ''Unhealthy'' \<and> smokingStatus d = ''Smoker''
      \<and> alcoholIntake d = ''Yes'' \<and> stressLevel d = ''High'' \<and> hypertension d = ''Yes''
      \<and> gender d = ''Male'')"

text \<open>The example profile of section 8, and a profile that scores nothing.\<close>

definition maxProfile :: HealthData where
  "maxProfile = \<lparr>age = Fin 50, gender = ''Male'', height = Fin 175, weight = Fin 98, bmi = Fin 32,
     familyHistory = ''Yes'', physicalActivity = ''Low'', dietType = ''Unhealthy'',
     smokingStatus = ''Smoker'', alcoholIntake = ''Yes'', stressLevel = ''High'',
     hypertension = ''Yes''\<rparr>"

definition lowProfile :: HealthData where
  "lowProfile = \<lparr>age = Fin 30, gender = ''Female'', height = Fin 170, weight = Fin 63.5, bmi = Fin 22,
     familyHistory = ''No'', physicalActivity = ''High'', dietType = ''Very Healthy'',
     smokingStatus = ''Non-Smoker'', alcoholIntake = ''No'', stressLevel = ''Low'',
     hypertension = ''No''\<rparr>"

text \<open>Profiles with the raw scores 30, 31, 60, 61 and 69.\<close>

definition profile30 :: HealthData where
  "profile30 = lowProfile\<lparr>age := Fin 50, bmi := Fin 27\<rparr>"

definition profile31 :: HealthData where
  "profile31 = lowProfile\<lparr>age := Fin 40, bmi := Fin 27, alcoholIntake := ''Yes''\<rparr>"

definition profile60 :: HealthData where
  "profile60 = lowProfile\<lparr>age := Fin 50, bmi := Fin 32, familyHistory := ''Yes''\<rparr>"

definition profile61 :: HealthData where
  "profile61 = lowProfile\<lparr>bmi := Fin 32, familyHistory := ''Yes'', smokingStatus := ''Smoker'',
     stressLevel := ''Medium''\<rparr>"

definition profile69 :: HealthData where
  "profile69 = lowProfile\<lparr>age := Fin 50, bmi := Fin 32, familyHistory := ''Yes'',
     physicalActivity := ''Moderate'', stressLevel := ''Medium''\<rparr>"

subsection \<open>Response bodies\<close>

text \<open>
  A body as the handler of \<open>/api/predict\<close> writes it, and one whose level and
  percentage are outside the ranges of \<open>RiskResult\<close>.
\<close>

definition trainedBody :: jsval where
  "trainedBody = JObj [(''riskLevel'', JStr ''High''), (''riskPercentage'', JNum (Fin 88)),
     (''modelUsed'', JStr ''trained''), (''accuracy'', JNum (Fin 91.5))]"

definition oddProperties :: "(string \<times> jsval) list" where
  "oddProperties = [(''riskLevel'', JStr ''Extreme''), (''riskPercentage'', JNum (Fin 250))]"

subsection \<open>Valid rows\<close>

text \<open>
  The validity of a row in the words of the specification: age and BMI parse as
  numbers above 0, and the nine categorical fields are present.
\<close>

fun positiveNumber :: "jsnum \<Rightarrow> bool" where
  "positiveNumber (Fin a) = (0 < a)"
| "positiveNumber PInf = True"
| "positiveNumber NaN = False"
| "positiveNumber NInf = False"

definition validRow :: "row \<Rightarrow> bool" where
  "validRow r =
     (positiveNumber (Age r) \<and> positiveNumber (BMI r) \<and> Gender r \<noteq> [] \<and> Family_History r \<noteq> []
      \<and> Physical_Activity r \<noteq> [] \<and> Diet_Type r \<noteq> [] \<and> Smoking_Status r \<noteq> []
      \<and> Alcohol_Intake r \<noteq> [] \<and> Stress_Level r \<noteq> [] \<and> Hypertension r \<noteq> []
      \<and> Diabetes r \<noteq> [])"

text \<open>A valid row, whose cholesterol cell is a number and whose other optional cells are not.\<close>

definition sampleRow :: row where
  "sampleRow = \<lparr>Age = Fin 50, Gender = ''Male'', BMI = Fin 27.5, Family_History = ''Yes'',
     Physical_Activity = ''Low'', Diet_Type = ''Vegan'', Smoking_Status = ''Never'',
     Alcohol_Intake = ''None'', Stress_Level = ''Low'', Hypertension = ''No'', Diabetes = ''Yes'',
     Cholesterol_Level = Fin 200, Fasting_Blood_Sugar = NaN, HBA1C = NaN, Heart_Rate = NaN,
     Waist_Hip_Ratio = NaN\<rparr>"

text \<open>A dataset of three rows: a valid one, one without an age and one without a gender.\<close>

definition sampleDataset :: "row list" where
  "sampleDataset = [sampleRow, sampleRow\<lparr>Age := NaN\<rparr>, sampleRow\<lparr>Gender := []\<rparr>]"

text \<open>
  A valid row whose \<open>Diabetes\<close> cell is the name of an inherited member, and five
  copies of the valid row.
\<close>

definition inheritedRow :: row where
  "inheritedRow = sampleRow\<lparr>Diabetes := ''constructor''\<rparr>"

definition fiveRows :: "row list" where
  "fiveRows = [sampleRow, sampleRow, sampleRow, sampleRow, sampleRow]"

subsection \<open>An instance of the two approximations\<close>

text \<open>
  The correctly rounded square and square root, which the product \<open>x * x\<close> and the
  square root of the hardware give: one pair of approximations that ECMAScript admits.
\<close>

function sqrt_floor :: "int \<Rightarrow> int" where
  "sqrt_floor n =
     (if n < 2 then (if n < 1 then 0 else 1)
      else let r = 2 * sqrt_floor (n div 4) in if (r + 1) * (r + 1) \<le> n then r + 1 else r)"
  by pat_completeness auto
termination
  by (relation "measure nat") auto

declare sqrt_floor.simps [simp del]

definition sqrt_rounded :: "rat \<Rightarrow> jsnum" where
  "sqrt_rounded x =
     (let (a, b) = quotient_of x;
          e = ilog2 a b div 2 - 52;
          y = x / pow2 (2 * e);
          n = sqrt_floor \<lfloor>y\<rfloor>;
          h = (of_int n + 1 / 2) * (of_int n + 1 / 2);
          m = (if y < h then n else if h < y then n + 1 else if even n then n else n + 1)
      in Fin (of_int m * pow2 e))"

definition roundedMath :: mathlib where
  "roundedMath = \<lparr>pow2_approx = (\<lambda>a. fl64 (a * a)), sqrt_approx = sqrt_rounded\<rparr>"

section \<open>The rule engine: score, level and percentage\<close>

lemma riskScore_ageFactor: "riskScore (ageFactor d st) = riskScore st + agePoints d"
  by (simp add: ageFactor_def agePoints_def add_score_def push_factor_def)

lemma riskScore_bmiFactor: "riskScore (bmiFactor d st) = riskScore st + bmiPoints d"
  by (simp add: bmiFactor_def bmiPoints_def add_score_def push_factor_def push_rec_def)

lemma riskScore_familyFactor: "riskScore (familyFactor d st) = riskScore st + familyPoints d"
  by (simp add: familyFactor_def familyPoints_def add_score_def push_factor_def push_rec_def)

lemma riskScore_activityFactor: "riskScore (activityFactor d st) = riskScore st + activityPoints d"
  by (simp add: activityFactor_def activityPoints_def add_score_def push_factor_def push_rec_def)

lemma riskScore_dietFactor: "riskScore (dietFactor d st) = riskScore st + dietPoints d"
  by (simp add: dietFactor_def dietPoints_def add_score_def push_factor_def push_rec_def)

lemma riskScore_smokingFactor: "riskScore (smokingFactor d st) = riskScore st + smokingPoints d"
  by (simp add: smokingFactor_def smokingPoints_def add_score_def push_factor_def push_rec_def)

lemma riskScore_alcoholFactor: "riskScore (alcoholFactor d st) = riskScore st + alcoholPoints d"
  by (simp add: alcoholFactor_def alcoholPoints_def add_score_def push_factor_def push_rec_def)

lemma riskScore_stressFactor: "riskScore (stressFactor d st) = riskScore st + stressPoints d"
  by (simp add: stressFactor_def stressPoints_def add_score_def push_factor_def push_rec_def)

lemma riskScore_hypertensionFactor:
  "riskScore (hypertensionFactor d st) = riskScore st + hypertensionPoints d"
  by (simp add: hypertensionFactor_def hypertensionPoints_def add_score_def push_factor_def
      push_rec_def)

lemma riskScore_genderFactor: "riskScore (genderFactor d st) = riskScore st + genderPoints d"
  by (simp add: genderFactor_def genderPoints_def add_score_def)

lemmas riskScore_steps =
  riskScore_ageFactor riskScore_bmiFactor riskScore_familyFactor riskScore_activityFactor
  riskScore_dietFactor riskScore_smokingFactor riskScore_alcoholFactor riskScore_stressFactor
  riskScore_hypertensionFactor riskScore_genderFactor

lemma rawScore_pointTotal: "rawScore d = pointTotal d"
  by (simp add: rawScore_def evaluateFactors_def riskScore_steps init_locals_def pointTotal_def)

lemma rawScore_le_137: "rawScore d \<le> 137"
proof -
  have "agePoints d \<le> 15" "bmiPoints d \<le> 25" "familyPoints d \<le> 20" "activityPoints d \<le> 15"
    "dietPoints d \<le> 15" "smokingPoints d \<le> 12" "alcoholPoints d \<le> 8" "stressPoints d \<le> 10"
    "hypertensionPoints d \<le> 15" "genderPoints d \<le> 2"
    by (simp_all add: agePoints_def bmiPoints_def familyPoints_def activityPoints_def
        dietPoints_def smokingPoints_def alcoholPoints_def stressPoints_def
        hypertensionPoints_def genderPoints_def)
  then show ?thesis
    unfolding rawScore_pointTotal pointTotal_def by linarith
qed

lemma riskScore_tierRecommendations: "riskScore (tierRecommendations st) = riskScore st"
  by (simp add: tierRecommendations_def)

lemma vFactors_tierRecommendations: "vFactors (tierRecommendations st) = vFactors st"
  by (simp add: tierRecommendations_def)

lemma riskLevel_calculate: "riskLevel (calculateDiabetesRisk d) = levelOf (rawScore d)"
  by (simp add: calculateDiabetesRisk_def Let_def riskScore_tierRecommendations rawScore_def)

lemma riskPercentage_calculate:
  "riskPercentage (calculateDiabetesRisk d) = percentageOf (rawScore d)"
  by (simp add: calculateDiabetesRisk_def Let_def riskScore_tierRecommendations rawScore_def)

lemma factors_calculate: "factors (calculateDiabetesRisk d) = vFactors (evaluateFactors d)"
  by (simp add: calculateDiabetesRisk_def Let_def vFactors_tierRecommendations)

lemmas point_defs =
  pointTotal_def agePoints_def bmiPoints_def familyPoints_def activityPoints_def dietPoints_def
  smokingPoints_def alcoholPoints_def stressPoints_def hypertensionPoints_def genderPoints_def

lemma rawScore_maxProfile: "rawScore maxProfile = 137"
  by (simp add: rawScore_pointTotal point_defs maxProfile_def js_ge_def)

lemma rawScore_profile30: "rawScore profile30 = 30"
  by (simp add: rawScore_pointTotal point_defs profile30_def lowProfile_def js_ge_def)

lemma rawScore_profile31: "rawScore profile31 = 31"
  by (simp add: rawScore_pointTotal point_defs profile31_def lowProfile_def js_ge_def)

lemma rawScore_profile60: "rawScore profile60 = 60"
  by (simp add: rawScore_pointTotal point_defs profile60_def lowProfile_def js_ge_def)

lemma rawScore_profile61: "rawScore profile61 = 61"
  by (simp add: rawScore_pointTotal point_defs profile61_def lowProfile_def js_ge_def)

lemma rawScore_profile69: "rawScore profile69 = 69"
  by (simp add: rawScore_pointTotal point_defs profile69_def lowProfile_def js_ge_def)

lemma percentageOf_137: "percentageOf 137 = 95"
  by code_simp

lemma percentageOf_69: "percentageOf 69 = 57"
  by code_simp

lemma exactPercentage_69: "exactPercentage 69 = 58"
  by code_simp

lemma percentage_table_1:
  "list_all (\<lambda>s. s = 69 \<or> percentageOf s = exactPercentage s) [0..<35]"
  by code_simp

lemma percentage_table_2:
  "list_all (\<lambda>s. s = 69 \<or> percentageOf s = exactPercentage s) [35..<70]"
  by code_simp

lemma percentage_table_3:
  "list_all (\<lambda>s. s = 69 \<or> percentageOf s = exactPercentage s) [70..<105]"
  by code_simp

lemma percentage_table_4:
  "list_all (\<lambda>s. s = 69 \<or> percentageOf s = exactPercentage s) [105..<138]"
  by code_simp

lemma percentageOf_exact:
  assumes "s \<le> 137" and "s \<noteq> 69"
  shows "percentageOf s = exactPercentage s"
proof -
  consider "s \<in> {0..<35}" | "s \<in> {35..<70}" | "s \<in> {70..<105}" | "s \<in> {105..<138}"
    using assms(1) by (simp only: atLeastLessThan_iff) linarith
  then show ?thesis
  proof cases
    case 1
    with percentage_table_1 assms(2) show ?thesis
      unfolding list_all_iff set_upt by blast
  next
    case 2
    with percentage_table_2 assms(2) show ?thesis
      unfolding list_all_iff set_upt by blast
  next
    case 3
    with percentage_table_3 assms(2) show ?thesis
      unfolding list_all_iff set_upt by blast
  next
    case 4
    with percentage_table_4 assms(2) show ?thesis
      unfolding list_all_iff set_upt by blast
  qed
qed

lemma percentageOf_le_95: "percentageOf s \<le> 95"
  by (simp add: percentageOf_def)

text \<open>
  C1. With every risk-increasing factor at its maximum the raw score is 137, the sum
  15+25+20+15+15+12+8+10+15+2 of the largest entry of each row of the point table, and
  not 120; no profile scores more. The percentage is 95 and the level is High.
\<close>

theorem C1_all_maxed:
  assumes "allFactorsMaxed d"
  shows "rawScore d = 137 \<and> (\<forall>d'. rawScore d' \<le> rawScore d)
         \<and> riskPercentage (calculateDiabetesRisk d) = 95
         \<and> riskLevel (calculateDiabetesRisk d) = High"
proof -
  have s: "rawScore d = 137"
    using assms by (simp add: allFactorsMaxed_def rawScore_pointTotal point_defs)
  show ?thesis
    by (simp add: s rawScore_le_137 riskPercentage_calculate riskLevel_calculate
        percentageOf_137 levelOf_def)
qed

theorem C1_all_maxed_witness:
  "allFactorsMaxed maxProfile \<and> rawScore maxProfile = 137
   \<and> riskPercentage (calculateDiabetesRisk maxProfile) = 95
   \<and> riskLevel (calculateDiabetesRisk maxProfile) = High"
proof -
  have h: "allFactorsMaxed maxProfile"
    by (simp add: allFactorsMaxed_def maxProfile_def js_ge_def)
  show ?thesis using h C1_all_maxed [OF h] by simp
qed

text \<open>
  C1, as the claim states it, fails on the example profile of the specification: all
  ten factors are at their maximum and the raw score is 137, not 120.
\<close>

theorem C1_counterexample:
  "allFactorsMaxed maxProfile \<and> rawScore maxProfile \<noteq> 120"
proof -
  have "allFactorsMaxed maxProfile"
    by (simp add: allFactorsMaxed_def maxProfile_def js_ge_def)
  moreover have "rawScore maxProfile \<noteq> 120"
    by (simp add: rawScore_maxProfile)
  ultimately show ?thesis by simp
qed

text \<open>
  C2. The level is Low exactly when the raw score is at most 30, Medium exactly when it
  is above 30 and at most 60, and High exactly when it is above 60; so the raw scores
  30, 31, 60 and 61 give Low, Medium, Medium and High.
\<close>

theorem C2_level_thresholds:
  "(riskLevel (calculateDiabetesRisk d) = Low \<longleftrightarrow> rawScore d \<le> 30)
   \<and> (riskLevel (calculateDiabetesRisk d) = Medium \<longleftrightarrow> 30 < rawScore d \<and> rawScore d \<le> 60)
   \<and> (riskLevel (calculateDiabetesRisk d) = High \<longleftrightarrow> 60 < rawScore d)
   \<and> (rawScore d = 30 \<longrightarrow> riskLevel (calculateDiabetesRisk d) = Low)
   \<and> (rawScore d = 31 \<longrightarrow> riskLevel (calculateDiabetesRisk d) = Medium)
   \<and> (rawScore d = 60 \<longrightarrow> riskLevel (calculateDiabetesRisk d) = Medium)
   \<and> (rawScore d = 61 \<longrightarrow> riskLevel (calculateDiabetesRisk d) = High)"
  by (simp add: riskLevel_calculate levelOf_def)

theorem C2_level_thresholds_witness:
  "rawScore profile30 = 30 \<and> riskLevel (calculateDiabetesRisk profile30) = Low
   \<and> rawScore profile31 = 31 \<and> riskLevel (calculateDiabetesRisk profile31) = Medium
   \<and> rawScore profile60 = 60 \<and> riskLevel (calculateDiabetesRisk profile60) = Medium
   \<and> rawScore profile61 = 61 \<and> riskLevel (calculateDiabetesRisk profile61) = High"
  using C2_level_thresholds [of profile30] C2_level_thresholds [of profile31]
    C2_level_thresholds [of profile60] C2_level_thresholds [of profile61]
  by (simp add: rawScore_profile30 rawScore_profile31 rawScore_profile60 rawScore_profile61)

text \<open>
  The doubles at the raw score 69: the quotient, the product and its exact value, which
  is below 57.5.
\<close>

lemma quotient_at_69: "fl_quot 69 120 = (5179139571476070, - 53)"
  by code_simp

lemma product_at_69: "dbl_mul (5179139571476070, - 53) 100 = (8092405580431359, - 47)"
  by code_simp

lemma double_at_69:
  "dbl_value (dbl_mul (fl_quot 69 120) 100) = 8092405580431359 / 2 ^ 47
   \<and> dbl_value (dbl_mul (fl_quot 69 120) 100) < 115 / 2"
  by (simp add: quotient_at_69 product_at_69 dbl_value_def)

text \<open>
  C3. The percentage is \<open>min(Math.round(x), 95)\<close>, where \<open>x\<close> is the double that
  \<open>(riskScore / 120) * 100\<close> evaluates to, and it never exceeds 95. It is the value of
  the formula \<open>min(round(rawScore/120*100), 95)\<close> taken in exact arithmetic for every
  raw score but 69: there the double is 57.49999999999999 and the percentage is 57, where
  the exact product is 57.5.
\<close>

theorem C3_percentage:
  "riskPercentage (calculateDiabetesRisk d)
     = min (Math_round (dbl_mul (fl_quot (int (rawScore d)) 120) 100)) 95
   \<and> riskPercentage (calculateDiabetesRisk d) \<le> 95
   \<and> (rawScore d \<noteq> 69 \<longrightarrow>
        riskPercentage (calculateDiabetesRisk d) = exactPercentage (rawScore d))
   \<and> (rawScore d = 69 \<longrightarrow> riskPercentage (calculateDiabetesRisk d) = 57)"
proof -
  have "riskPercentage (calculateDiabetesRisk d)
          = min (Math_round (dbl_mul (fl_quot (int (rawScore d)) 120) 100)) 95"
    by (simp add: riskPercentage_calculate percentageOf_def)
  moreover have "riskPercentage (calculateDiabetesRisk d) \<le> 95"
    by (simp add: riskPercentage_calculate percentageOf_le_95)
  moreover have "rawScore d \<noteq> 69 \<longrightarrow>
      riskPercentage (calculateDiabetesRisk d) = exactPercentage (rawScore d)"
    by (simp add: riskPercentage_calculate percentageOf_exact rawScore_le_137)
  moreover have "rawScore d = 69 \<longrightarrow> riskPercentage (calculateDiabetesRisk d) = 57"
    by (simp add: riskPercentage_calculate percentageOf_69)
  ultimately show ?thesis by blast
qed

theorem C3_percentage_witness:
  "rawScore maxProfile \<noteq> 69
   \<and> riskPercentage (calculateDiabetesRisk maxProfile) = exactPercentage (rawScore maxProfile)
   \<and> riskPercentage (calculateDiabetesRisk maxProfile) \<le> 95
   \<and> rawScore profile69 = 69
   \<and> riskPercentage (calculateDiabetesRisk profile69) = 57"
proof -
  have a: "rawScore maxProfile \<noteq> 69"
    by (simp add: rawScore_maxProfile)
  have b: "rawScore profile69 = 69"
    by (rule rawScore_profile69)
  from C3_percentage [of maxProfile] a
  have "riskPercentage (calculateDiabetesRisk maxProfile) = exactPercentage (rawScore maxProfile)"
    and "riskPercentage (calculateDiabetesRisk maxProfile) \<le> 95"
    by blast+
  moreover from C3_percentage [of profile69] b
  have "riskPercentage (calculateDiabetesRisk profile69) = 57"
    by blast
  ultimately show ?thesis using a b by blast
qed

text \<open>
  C3, as the claim states it, fails on a profile that scores 69 (age 50, BMI 32, family
  history, moderate activity, medium stress): the formula gives 58 and the code 57.
\<close>

theorem C3_counterexample:
  "rawScore profile69 = 69
   \<and> exactPercentage (rawScore profile69) = 58
   \<and> riskPercentage (calculateDiabetesRisk profile69) = 57"
  by (simp add: rawScore_profile69 exactPercentage_69 riskPercentage_calculate percentageOf_69)

section \<open>The records of the rule engine\<close>

lemma vFactors_ageFactor: "vFactors (ageFactor d st) = vFactors st @ [ageRecord d]"
  by (simp add: ageFactor_def ageRecord_def add_score_def push_factor_def)

lemma vFactors_bmiFactor: "vFactors (bmiFactor d st) = vFactors st @ [bmiRecord d]"
  by (simp add: bmiFactor_def bmiRecord_def add_score_def push_factor_def push_rec_def)

lemma vFactors_familyFactor: "vFactors (familyFactor d st) = vFactors st @ [familyRecord d]"
  by (simp add: familyFactor_def familyRecord_def add_score_def push_factor_def push_rec_def)

lemma vFactors_activityFactor: "vFactors (activityFactor d st) = vFactors st @ [activityRecord d]"
  by (simp add: activityFactor_def activityRecord_def add_score_def push_factor_def push_rec_def)

lemma vFactors_dietFactor: "vFactors (dietFactor d st) = vFactors st @ [dietRecord d]"
  by (simp add: dietFactor_def dietRecord_def add_score_def push_factor_def push_rec_def)

lemma vFactors_smokingFactor: "vFactors (smokingFactor d st) = vFactors st @ [smokingRecord d]"
  by (simp add: smokingFactor_def smokingRecord_def add_score_def push_factor_def push_rec_def)

lemma vFactors_alcoholFactor: "vFactors (alcoholFactor d st) = vFactors st @ [alcoholRecord d]"
  by (simp add: alcoholFactor_def alcoholRecord_def add_score_def push_factor_def push_rec_def)

lemma vFactors_stressFactor: "vFactors (stressFactor d st) = vFactors st @ [stressRecord d]"
  by (simp add: stressFactor_def stressRecord_def add_score_def push_factor_def push_rec_def)

lemma vFactors_hypertensionFactor:
  "vFactors (hypertensionFactor d st) = vFactors st @ [hypertensionRecord d]"
  by (simp add: hypertensionFactor_def hypertensionRecord_def add_score_def push_factor_def
      push_rec_def)

lemma vFactors_genderFactor: "vFactors (genderFactor d st) = vFactors st"
  by (simp add: genderFactor_def add_score_def)

lemmas vFactors_steps =
  vFactors_ageFactor vFactors_bmiFactor vFactors_familyFactor vFactors_activityFactor
  vFactors_dietFactor vFactors_smokingFactor vFactors_alcoholFactor vFactors_stressFactor
  vFactors_hypertensionFactor vFactors_genderFactor

lemma vFactors_evaluateFactors:
  "vFactors (evaluateFactors d) =
     [ageRecord d, bmiRecord d, familyRecord d, activityRecord d, dietRecord d,
      smokingRecord d, alcoholRecord d, stressRecord d, hypertensionRecord d]"
  by (simp add: evaluateFactors_def vFactors_steps init_locals_def)

lemma length_factors_calculate: "length (factors (calculateDiabetesRisk d)) = 9"
  by (simp add: factors_calculate vFactors_evaluateFactors)

lemma impact_fits_age: "impact_fits (impact (ageRecord d)) (agePoints d)"
  by (simp add: ageRecord_def agePoints_def age_high_def age_mid_def age_low_def)

lemma impact_fits_bmi: "impact_fits (impact (bmiRecord d)) (bmiPoints d)"
  by (simp add: bmiRecord_def bmiPoints_def bmi_obese_def bmi_over_def bmi_healthy_def
      bmi_under_def)

lemma impact_fits_family: "impact_fits (impact (familyRecord d)) (familyPoints d)"
  by (simp add: familyRecord_def familyPoints_def family_yes_def family_no_def)

lemma impact_fits_activity: "impact_fits (impact (activityRecord d)) (activityPoints d)"
  by (simp add: activityRecord_def activityPoints_def activity_low_def activity_moderate_def
      activity_high_def)

lemma impact_fits_diet: "impact_fits (impact (dietRecord d)) (dietPoints d)"
  by (simp add: dietRecord_def dietPoints_def diet_unhealthy_def diet_balanced_def
      diet_healthy_def)

lemma impact_fits_smoking: "impact_fits (impact (smokingRecord d)) (smokingPoints d)"
  by (simp add: smokingRecord_def smokingPoints_def smoking_current_def smoking_former_def
      smoking_never_def)

lemma impact_fits_alcohol: "impact_fits (impact (alcoholRecord d)) (alcoholPoints d)"
  by (simp add: alcoholRecord_def alcoholPoints_def alcohol_regular_def alcohol_occasional_def
      alcohol_none_def)

lemma impact_fits_stress: "impact_fits (impact (stressRecord d)) (stressPoints d)"
  by (simp add: stressRecord_def stressPoints_def stress_high_def stress_medium_def
      stress_low_def)

lemma impact_fits_hypertension:
  "impact_fits (impact (hypertensionRecord d)) (hypertensionPoints d)"
  by (simp add: hypertensionRecord_def hypertensionPoints_def hypertension_yes_def
      hypertension_no_def)

text \<open>
  C7. The ten factors are evaluated once each, in the order of the point table, and each
  adds its points. Nine of them push exactly one record; the gender adjustment pushes
  none, so a result has nine records. The impact of a record is \<open>negative\<close> only with
  a positive number of points, \<open>positive\<close> only with none, and \<open>neutral\<close> with
  0, 2, 3, 4 or 5 points.
\<close>

theorem C7_factor_evaluations:
  "adds_one_record (ageFactor d) (agePoints d) (ageRecord d) st
   \<and> adds_one_record (bmiFactor d) (bmiPoints d) (bmiRecord d) st
   \<and> adds_one_record (familyFactor d) (familyPoints d) (familyRecord d) st
   \<and> adds_one_record (activityFactor d) (activityPoints d) (activityRecord d) st
   \<and> adds_one_record (dietFactor d) (dietPoints d) (dietRecord d) st
   \<and> adds_one_record (smokingFactor d) (smokingPoints d) (smokingRecord d) st
   \<and> adds_one_record (alcoholFactor d) (alcoholPoints d) (alcoholRecord d) st
   \<and> adds_one_record (stressFactor d) (stressPoints d) (stressRecord d) st
   \<and> adds_one_record (hypertensionFactor d) (hypertensionPoints d) (hypertensionRecord d) st
   \<and> adds_no_record (genderFactor d) (genderPoints d) st
   \<and> rawScore d = pointTotal d
   \<and> factors (calculateDiabetesRisk d) =
       [ageRecord d, bmiRecord d, familyRecord d, activityRecord d, dietRecord d,
        smokingRecord d, alcoholRecord d, stressRecord d, hypertensionRecord d]"
  unfolding adds_one_record_def adds_no_record_def
  by (simp only: riskScore_steps vFactors_steps impact_fits_age impact_fits_bmi
      impact_fits_family impact_fits_activity impact_fits_diet impact_fits_smoking
      impact_fits_alcohol impact_fits_stress impact_fits_hypertension rawScore_pointTotal
      factors_calculate vFactors_evaluateFactors simp_thms)

text \<open>
  C7, as the claim states it, fails on the example profile: the gender evaluation adds 2
  points and pushes no record, so the ten evaluations leave nine records. It also fails
  on a profile with moderate activity, whose 5 added points come with a record of
  impact \<open>neutral\<close>.
\<close>

theorem C7_counterexample:
  "riskScore (genderFactor maxProfile init_locals) = 2
   \<and> vFactors (genderFactor maxProfile init_locals) = []
   \<and> length (factors (calculateDiabetesRisk maxProfile)) = 9
   \<and> riskScore (activityFactor profile69 init_locals) = 5
   \<and> map impact (vFactors (activityFactor profile69 init_locals)) = [Neutral]"
proof -
  have "riskScore (genderFactor maxProfile init_locals) = 2"
    by (simp add: genderFactor_def maxProfile_def add_score_def init_locals_def)
  moreover have "vFactors (genderFactor maxProfile init_locals) = []"
    by (simp add: genderFactor_def maxProfile_def add_score_def init_locals_def)
  moreover have "length (factors (calculateDiabetesRisk maxProfile)) = 9"
    by (rule length_factors_calculate)
  moreover have "riskScore (activityFactor profile69 init_locals) = 5"
    by (simp add: activityFactor_def profile69_def lowProfile_def add_score_def push_factor_def
        push_rec_def init_locals_def)
  moreover have "map impact (vFactors (activityFactor profile69 init_locals)) = [Neutral]"
    by (simp add: activityFactor_def profile69_def lowProfile_def add_score_def push_factor_def
        push_rec_def init_locals_def activity_moderate_def)
  ultimately show ?thesis by simp
qed

section \<open>The orchestrator\<close>

lemma fallback_defined:
  "fallback RequireDefined d =
     Fulfilled
       \<lparr>riskLevel = JStr (level_string (riskLevel (calculateDiabetesRisk d))),
        riskPercentage = JNum (Fin (of_int (riskPercentage (calculateDiabetesRisk d)))),
        factors = factors (calculateDiabetesRisk d),
        recommendations =
          ''Prediction made using rule-based algorithm'' # recommendations (calculateDiabetesRisk d),
        modelUsed = RuleBased\<rparr>"
  by (simp add: fallback_def useRuleBasedModel_def Let_def)

lemma fallback_undefined: "fallback RequireUndefined d = RejectedWith ReferenceError"
  by (simp add: fallback_def useRuleBasedModel_def)

lemma predict_Rejected: "predictDiabetesRisk req d Rejected = fallback req d"
  by (simp add: predictDiabetesRisk_def)

lemma predict_not_ok: "predictDiabetesRisk req d (Response False body) = fallback req d"
  by (simp add: predictDiabetesRisk_def)

lemma predict_Malformed: "predictDiabetesRisk req d (Response True Malformed) = fallback req d"
  by (simp add: predictDiabetesRisk_def)

lemma predict_Stalled: "predictDiabetesRisk req d (Response True Stalled) = NeverSettles"
  by (simp add: predictDiabetesRisk_def)

lemma predict_object:
  "predictDiabetesRisk req d (Response True (Parsed (JObj kvs))) =
     Fulfilled
       \<lparr>riskLevel = (case map_of kvs ''riskLevel'' of None \<Rightarrow> JUndefined | Some v \<Rightarrow> v),
        riskPercentage = (case map_of kvs ''riskPercentage'' of None \<Rightarrow> JUndefined | Some v \<Rightarrow> v),
        factors = generateFactors d,
        recommendations = generateRecommendations d
          (case map_of kvs ''riskLevel'' of None \<Rightarrow> JUndefined | Some v \<Rightarrow> v),
        modelUsed = Trained\<rparr>"
  by (simp add: predictDiabetesRisk_def)

text \<open>
  C5. The fallback is the call \<open>useRuleBasedModel(data)\<close> after the \<open>try\<close> block,
  which starts with \<open>require('./diabetesPrediction')\<close>. Where \<open>require\<close> has no
  binding, every outcome that falls back (a rejected fetch, a response that is not
  \<open>ok\<close>, a malformed body) rejects the promise with a ReferenceError: the remote
  failure reaches the caller as an error. An \<open>ok\<close> response whose body stalls leaves
  the promise pending, under either binding. Where \<open>require\<close> is bound, the fallback
  is what the claim says: level, percentage and factors of the rule engine, its
  recommendations behind the notice, and \<open>modelUsed = rule-based\<close>.
\<close>

theorem C5_fallback:
  "predictDiabetesRisk RequireUndefined d Rejected = RejectedWith ReferenceError
   \<and> predictDiabetesRisk RequireUndefined d (Response False body) = RejectedWith ReferenceError
   \<and> predictDiabetesRisk RequireUndefined d (Response True Malformed) = RejectedWith ReferenceError
   \<and> predictDiabetesRisk req d (Response True Stalled) = NeverSettles
   \<and> predictDiabetesRisk RequireDefined d Rejected = fallback RequireDefined d
   \<and> predictDiabetesRisk RequireDefined d (Response False body) = fallback RequireDefined d
   \<and> predictDiabetesRisk RequireDefined d (Response True Malformed) = fallback RequireDefined d
   \<and> fallback RequireDefined d =
       Fulfilled
         \<lparr>riskLevel = JStr (level_string (riskLevel (calculateDiabetesRisk d))),
          riskPercentage = JNum (Fin (of_int (riskPercentage (calculateDiabetesRisk d)))),
          factors = factors (calculateDiabetesRisk d),
          recommendations =
            ''Prediction made using rule-based algorithm''
              # recommendations (calculateDiabetesRisk d),
          modelUsed = RuleBased\<rparr>"
  by (simp only: predict_Rejected predict_not_ok predict_Malformed predict_Stalled
      fallback_undefined fallback_defined simp_thms)

lemma length_generateFactors: "length (generateFactors d) \<le> 5"
  by (simp add: generateFactors_def)

lemma subseq_generateFactors: "subseq (generateFactors d) (vFactors (evaluateFactors d))"
proof -
  have a: "subseq (if js_ge (age d) (Fin 45) then [age_high d]
      else if js_ge (age d) (Fin 35) then [age_mid d] else [age_low d]) [ageRecord d]"
    by (simp add: ageRecord_def)
  have b: "subseq (if js_ge (bmi d) (Fin 30) then [bmi_obese d]
      else if js_ge (bmi d) (Fin 25) then [bmi_over d]
      else if js_ge (bmi d) (Fin 18.5) then [bmi_healthy d] else []) [bmiRecord d]"
    by (simp add: bmiRecord_def)
  have c: "subseq (if familyHistory d = ''Yes'' then [family_yes] else []) [familyRecord d]"
    by (simp add: familyRecord_def)
  have e: "subseq (if physicalActivity d = ''Low'' then [activity_low]
      else if physicalActivity d = ''High'' then [activity_high] else [])
      ([activityRecord d] @ [dietRecord d, smokingRecord d, alcoholRecord d, stressRecord d])"
    by (simp add: activityRecord_def)
  have f: "subseq (if hypertension d = ''Yes'' then [hypertension_yes] else [])
      [hypertensionRecord d]"
    by (simp add: hypertensionRecord_def)
  have "subseq (generateFactors d)
      ([ageRecord d] @ [bmiRecord d] @ [familyRecord d]
        @ ([activityRecord d] @ [dietRecord d, smokingRecord d, alcoholRecord d, stressRecord d])
        @ [hypertensionRecord d])"
    unfolding generateFactors_def
    by (intro list_emb_append_mono a b c e f)
  then show ?thesis
    by (simp add: vFactors_evaluateFactors)
qed

text \<open>
  C6. On the trained-model path the factors are \<open>generateFactors\<close> of the profile,
  whatever the response holds. They are rule-derived in that they form a subsequence of
  the rule engine's factors for the same profile, with the same records in the same
  order; but they are at most five where the rule engine gives nine, so the two lists
  are never equal.
\<close>

theorem C6_trained_factors:
  "map_settled factors (predictDiabetesRisk req d (Response True (Parsed (JObj kvs))))
     = Fulfilled (generateFactors d)
   \<and> subseq (generateFactors d) (factors (calculateDiabetesRisk d))
   \<and> length (generateFactors d) \<le> 5
   \<and> length (factors (calculateDiabetesRisk d)) = 9"
  by (simp add: predict_object subseq_generateFactors factors_calculate length_generateFactors
      length_factors_calculate [simplified factors_calculate])

text \<open>
  C6, as the claim states it, fails on the example profile with the body the service
  writes: the trained path gives five factors, the rule engine nine.
\<close>

theorem C6_counterexample:
  "map_settled factors (predictDiabetesRisk RequireDefined maxProfile (Response True (Parsed trainedBody)))
     \<noteq> Fulfilled (factors (calculateDiabetesRisk maxProfile))"
proof
  assume "map_settled factors
      (predictDiabetesRisk RequireDefined maxProfile (Response True (Parsed trainedBody)))
     = Fulfilled (factors (calculateDiabetesRisk maxProfile))"
  then have "length (generateFactors maxProfile) = length (factors (calculateDiabetesRisk maxProfile))"
    by (simp add: trainedBody_def predict_object)
  then show False
    using length_generateFactors [of maxProfile] length_factors_calculate [of maxProfile]
    by simp
qed

text \<open>
  C10. On an \<open>ok\<close> response whose body is an object, the promise is fulfilled, and the
  level and the percentage of the result are the body's properties \<open>riskLevel\<close> and
  \<open>riskPercentage\<close> as they are, with no check of range or of vocabulary;
  \<open>modelUsed\<close> is \<open>trained\<close>.
\<close>

theorem C10_pass_through:
  assumes "map_of kvs ''riskLevel'' = Some lvl" and "map_of kvs ''riskPercentage'' = Some pct"
  shows "map_settled riskLevel (predictDiabetesRisk req d (Response True (Parsed (JObj kvs))))
      = Fulfilled lvl
    \<and> map_settled riskPercentage (predictDiabetesRisk req d (Response True (Parsed (JObj kvs))))
      = Fulfilled pct
    \<and> map_settled modelUsed (predictDiabetesRisk req d (Response True (Parsed (JObj kvs))))
      = Fulfilled Trained"
  using assms by (simp add: predict_object)

theorem C10_pass_through_witness:
  "map_of oddProperties ''riskLevel'' = Some (JStr ''Extreme'')
   \<and> map_of oddProperties ''riskPercentage'' = Some (JNum (Fin 250))
   \<and> map_settled riskLevel
        (predictDiabetesRisk RequireUndefined lowProfile (Response True (Parsed (JObj oddProperties))))
       = Fulfilled (JStr ''Extreme'')
   \<and> map_settled riskPercentage
        (predictDiabetesRisk RequireUndefined lowProfile (Response True (Parsed (JObj oddProperties))))
       = Fulfilled (JNum (Fin 250))
   \<and> map_settled modelUsed
        (predictDiabetesRisk RequireUndefined lowProfile (Response True (Parsed (JObj oddProperties))))
       = Fulfilled Trained"
proof -
  have a: "map_of oddProperties ''riskLevel'' = Some (JStr ''Extreme'')"
    by (simp add: oddProperties_def)
  have b: "map_of oddProperties ''riskPercentage'' = Some (JNum (Fin 250))"
    by (simp add: oddProperties_def)
  show ?thesis
    using a b C10_pass_through [OF a b, of RequireUndefined lowProfile] by simp
qed

section \<open>Dataset processing\<close>

lemma validRow_iff: "validRow r \<longleftrightarrow> \<not> invalidNumbers r \<and> \<not> missingField r"
  by (cases "Age r"; cases "BMI r")
    (auto simp add: validRow_def invalidNumbers_def missingField_def isNaN_def)

lemma firstPass_ages: "ages (firstPass ds c) = ages c @ map Age (filter validRow ds)"
  by (induction ds arbitrary: c) (simp_all add: validRow_iff)

lemma firstPass_bmis: "bmis (firstPass ds c) = bmis c @ map BMI (filter validRow ds)"
  by (induction ds arbitrary: c) (simp_all add: validRow_iff)

lemma firstPass_cholesterols:
  "cholesterols (firstPass ds c) =
     cholesterols c @ filter (\<lambda>v. \<not> isNaN v) (map Cholesterol_Level (filter validRow ds))"
  by (induction ds arbitrary: c) (simp_all add: validRow_iff push_number_def)

lemma firstPass_fastingSugars:
  "fastingSugars (firstPass ds c) =
     fastingSugars c @ filter (\<lambda>v. \<not> isNaN v) (map Fasting_Blood_Sugar (filter validRow ds))"
  by (induction ds arbitrary: c) (simp_all add: validRow_iff push_number_def)

lemma firstPass_hba1cs:
  "hba1cs (firstPass ds c) =
     hba1cs c @ filter (\<lambda>v. \<not> isNaN v) (map HBA1C (filter validRow ds))"
  by (induction ds arbitrary: c) (simp_all add: validRow_iff push_number_def)

lemma firstPass_heartRates:
  "heartRates (firstPass ds c) =
     heartRates c @ filter (\<lambda>v. \<not> isNaN v) (map Heart_Rate (filter validRow ds))"
  by (induction ds arbitrary: c) (simp_all add: validRow_iff push_number_def)

lemma firstPass_waistHipRatios:
  "waistHipRatios (firstPass ds c) =
     waistHipRatios c @ filter (\<lambda>v. \<not> isNaN v) (map Waist_Hip_Ratio (filter validRow ds))"
  by (induction ds arbitrary: c) (simp_all add: validRow_iff push_number_def)

lemma secondPass_eq:
  "secondPass st ds (fs, ls) =
     (fs @ map (featureOf st) (filter validRow ds), ls @ map labelOf (filter validRow ds))"
  by (induction ds arbitrary: fs ls) (simp_all add: validRow_iff)

lemma pStats_processData: "pStats (processData M ds) = statsOf M (firstPass ds no_data)"
  by (simp add: processData_def Let_def split: prod.splits)

lemma pFeatures_processData:
  "pFeatures (processData M ds) =
     map (featureOf (statsOf M (firstPass ds no_data))) (filter validRow ds)"
  by (simp add: processData_def Let_def secondPass_eq)

lemma pLabels_processData: "pLabels (processData M ds) = map labelOf (filter validRow ds)"
  by (simp add: processData_def Let_def secondPass_eq)

lemma logged_processData: "logged (processData M ds) = (length (filter validRow ds), length ds)"
  by (simp add: processData_def Let_def secondPass_eq)

lemma code_or_0_own:
  "k \<notin> set objectPrototypeKeys \<Longrightarrow>
     code_or_0 table k = (case map_of table k of None \<Rightarrow> Val (Fin 0) | Some c \<Rightarrow> Val (Fin c))"
  by (simp add: code_or_0_def split: option.splits)

lemma code_or_0_inherited:
  "k \<in> set objectPrototypeKeys \<Longrightarrow> map_of table k = None \<Longrightarrow> code_or_0 table k = Inherited k"
  by (simp add: code_or_0_def)

lemma label_own:
  "Diabetes r \<notin> set objectPrototypeKeys \<Longrightarrow>
     code_or_0 binaryMap (Diabetes r) = (if Diabetes r = ''Yes'' then Val (Fin 1) else Val (Fin 0))"
  by (simp add: code_or_0_def binaryMap_def)

lemma pStats_explicit:
  "pStats (processData M ds) =
     (let c = firstPass ds no_data;
          mean = (\<lambda>xs. js_div (foldl js_add (Fin 0) xs) (Fin (of_nat (length xs))));
          dev = (\<lambda>xs m. Math_sqrt M
                  (js_div (foldl (\<lambda>sum val. js_add sum (Math_pow2 M (js_sub val m))) (Fin 0) xs)
                          (Fin (of_nat (length xs)))));
          meanOr0 = (\<lambda>xs. if 0 < length xs then mean xs else Fin 0);
          devOr1 = (\<lambda>xs m. if 0 < length xs then dev xs m else Fin 1)
      in \<lparr>ageMean = mean (ages c),
          ageStd = dev (ages c) (mean (ages c)),
          bmiMean = mean (bmis c),
          bmiStd = dev (bmis c) (mean (bmis c)),
          cholesterolMean = meanOr0 (cholesterols c),
          cholesterolStd = devOr1 (cholesterols c) (meanOr0 (cholesterols c)),
          fastingSugarMean = meanOr0 (fastingSugars c),
          fastingSugarStd = devOr1 (fastingSugars c) (meanOr0 (fastingSugars c)),
          hba1cMean = meanOr0 (hba1cs c),
          hba1cStd = devOr1 (hba1cs c) (meanOr0 (hba1cs c)),
          heartRateMean = meanOr0 (heartRates c),
          heartRateStd = devOr1 (heartRates c) (meanOr0 (heartRates c)),
          waistHipRatioMean = meanOr0 (waistHipRatios c),
          waistHipRatioStd = devOr1 (waistHipRatios c) (meanOr0 (waistHipRatios c))\<rparr>)"
  unfolding pStats_processData statsOf_def meanOf_def stdOf_def meanOpt_def stdOpt_def Let_def
  by (rule refl)

lemma pFeatures_explicit:
  "pFeatures (processData M ds) =
     (let st = pStats (processData M ds);
          z = (\<lambda>v m sd. js_div (js_sub v m) sd);
          zOr0 = (\<lambda>v m sd. if v = NaN then Fin 0 else js_div (js_sub v m) sd)
      in map (\<lambda>r.
           [Val (z (Age r) (ageMean st) (ageStd st)),
            code_or_0 genderMap (Gender r),
            Val (z (BMI r) (bmiMean st) (bmiStd st)),
            code_or_0 binaryMap (Family_History r),
            code_or_0 activityMap (Physical_Activity r),
            code_or_0 dietMap (Diet_Type r),
            code_or_0 smokingMap (Smoking_Status r),
            code_or_0 alcoholMap (Alcohol_Intake r),
            code_or_0 stressMap (Stress_Level r),
            code_or_0 binaryMap (Hypertension r),
            Val (zOr0 (Cholesterol_Level r) (cholesterolMean st) (cholesterolStd st)),
            Val (zOr0 (Fasting_Blood_Sugar r) (fastingSugarMean st) (fastingSugarStd st)),
            Val (zOr0 (HBA1C r) (hba1cMean st) (hba1cStd st)),
            Val (zOr0 (Heart_Rate r) (heartRateMean st) (heartRateStd st)),
            Val (zOr0 (Waist_Hip_Ratio r) (waistHipRatioMean st) (waistHipRatioStd st))])
         (filter validRow ds))"
proof -
  have "featureOf st = (\<lambda>r.
           [Val (js_div (js_sub (Age r) (ageMean st)) (ageStd st)),
            code_or_0 genderMap (Gender r),
            Val (js_div (js_sub (BMI r) (bmiMean st)) (bmiStd st)),
            code_or_0 binaryMap (Family_History r),
            code_or_0 activityMap (Physical_Activity r),
            code_or_0 dietMap (Diet_Type r),
            code_or_0 smokingMap (Smoking_Status r),
            code_or_0 alcoholMap (Alcohol_Intake r),
            code_or_0 stressMap (Stress_Level r),
            code_or_0 binaryMap (Hypertension r),
            Val (if Cholesterol_Level r = NaN then Fin 0
                 else js_div (js_sub (Cholesterol_Level r) (cholesterolMean st)) (cholesterolStd st)),
            Val (if Fasting_Blood_Sugar r = NaN then Fin 0
                 else js_div (js_sub (Fasting_Blood_Sugar r) (fastingSugarMean st)) (fastingSugarStd st)),
            Val (if HBA1C r = NaN then Fin 0
                 else js_div (js_sub (HBA1C r) (hba1cMean st)) (hba1cStd st)),
            Val (if Heart_Rate r = NaN then Fin 0
                 else js_div (js_sub (Heart_Rate r) (heartRateMean st)) (heartRateStd st)),
            Val (if Waist_Hip_Ratio r = NaN then Fin 0
                 else js_div (js_sub (Waist_Hip_Ratio r) (waistHipRatioMean st))
                        (waistHipRatioStd st))])" for st
    by (rule ext) (simp add: featureOf_def normalize_def normalizeOpt_def isNaN_def)
  then show ?thesis
    by (simp only: pFeatures_processData pStats_processData Let_def)
qed

lemma tables_explicit:
  "genderMap = [(''Male'', 1), (''Female'', 0), (''Other'', 1 / 2)]"
  "binaryMap = [(''Yes'', 1), (''No'', 0)]"
  "activityMap = [(''Low'', 0), (''Medium'', 1), (''High'', 2)]"
  "dietMap = [(''Non-Vegetarian'', 0), (''Vegetarian'', 1), (''Vegan'', 2)]"
  "smokingMap = [(''Never'', 0), (''Current'', 2), (''Former'', 1)]"
  "alcoholMap = [(''None'', 0), (''Moderate'', 1), (''High'', 2)]"
  "stressMap = [(''Low'', 0), (''Medium'', 1), (''High'', 2)]"
  by (simp_all add: genderMap_def binaryMap_def activityMap_def dietMap_def smokingMap_def
      alcoholMap_def stressMap_def)

text \<open>
  C9. \<open>processData\<close> walks the dataset twice with the same two tests. A row passes
  them exactly when it is valid: age and BMI are numbers above 0 and the nine categorical
  fields are present. The first pass collects the ages and BMIs of exactly the valid rows,
  and of each optional column the values of the valid rows that are numbers. The
  statistics are the mean (the sum from the left, over the count) and the deviation (the
  root of the mean squared distance to the mean) of each collected column, with 0 and 1
  for an optional column without a number. The second pass gives, per valid row and in
  the order of the dataset, one feature vector and one label: age, BMI and the optional
  columns as (value - mean) / deviation, an optional cell that is no number as 0, and
  the categorical columns by their code tables. A word that is neither a key of its
  table nor the name of an inherited member has the code 0; so the label is 1 for
  \<open>Diabetes = Yes\<close> and 0 for every other such word. No row raises an error, and the
  log line gives the number of valid rows and the number of rows.
\<close>

theorem C9_two_pass:
  "(validRow r \<longleftrightarrow> \<not> invalidNumbers r \<and> \<not> missingField r)
   \<and> ages (firstPass ds no_data) = map Age (filter validRow ds)
   \<and> bmis (firstPass ds no_data) = map BMI (filter validRow ds)
   \<and> cholesterols (firstPass ds no_data)
       = filter (\<lambda>v. \<not> isNaN v) (map Cholesterol_Level (filter validRow ds))
   \<and> fastingSugars (firstPass ds no_data)
       = filter (\<lambda>v. \<not> isNaN v) (map Fasting_Blood_Sugar (filter validRow ds))
   \<and> hba1cs (firstPass ds no_data) = filter (\<lambda>v. \<not> isNaN v) (map HBA1C (filter validRow ds))
   \<and> heartRates (firstPass ds no_data)
       = filter (\<lambda>v. \<not> isNaN v) (map Heart_Rate (filter validRow ds))
   \<and> waistHipRatios (firstPass ds no_data)
       = filter (\<lambda>v. \<not> isNaN v) (map Waist_Hip_Ratio (filter validRow ds))
   \<and> pStats (processData M ds) =
       (let c = firstPass ds no_data;
            mean = (\<lambda>xs. js_div (foldl js_add (Fin 0) xs) (Fin (of_nat (length xs))));
            dev = (\<lambda>xs m. Math_sqrt M
                    (js_div (foldl (\<lambda>sum val. js_add sum (Math_pow2 M (js_sub val m))) (Fin 0) xs)
                            (Fin (of_nat (length xs)))));
            meanOr0 = (\<lambda>xs. if 0 < length xs then mean xs else Fin 0);
            devOr1 = (\<lambda>xs m. if 0 < length xs then dev xs m else Fin 1)
        in \<lparr>ageMean = mean (ages c),
            ageStd = dev (ages c) (mean (ages c)),
            bmiMean = mean (bmis c),
            bmiStd = dev (bmis c) (mean (bmis c)),
            cholesterolMean = meanOr0 (cholesterols c),
            cholesterolStd = devOr1 (cholesterols c) (meanOr0 (cholesterols c)),
            fastingSugarMean = meanOr0 (fastingSugars c),
            fastingSugarStd = devOr1 (fastingSugars c) (meanOr0 (fastingSugars c)),
            hba1cMean = meanOr0 (hba1cs c),
            hba1cStd = devOr1 (hba1cs c) (meanOr0 (hba1cs c)),
            heartRateMean = meanOr0 (heartRates c),
            heartRateStd = devOr1 (heartRates c) (meanOr0 (heartRates c)),
            waistHipRatioMean = meanOr0 (waistHipRatios c),
            waistHipRatioStd = devOr1 (waistHipRatios c) (meanOr0 (waistHipRatios c))\<rparr>)
   \<and> pFeatures (processData M ds) =
       (let st = pStats (processData M ds);
            z = (\<lambda>v m sd. js_div (js_sub v m) sd);
            zOr0 = (\<lambda>v m sd. if v = NaN then Fin 0 else js_div (js_sub v m) sd)
        in map (\<lambda>r.
             [Val (z (Age r) (ageMean st) (ageStd st)),
              code_or_0 genderMap (Gender r),
              Val (z (BMI r) (bmiMean st) (bmiStd st)),
              code_or_0 binaryMap (Family_History r),
              code_or_0 activityMap (Physical_Activity r),
              code_or_0 dietMap (Diet_Type r),
              code_or_0 smokingMap (Smoking_Status r),
              code_or_0 alcoholMap (Alcohol_Intake r),
              code_or_0 stressMap (Stress_Level r),
              code_or_0 binaryMap (Hypertension r),
              Val (zOr0 (Cholesterol_Level r) (cholesterolMean st) (cholesterolStd st)),
              Val (zOr0 (Fasting_Blood_Sugar r) (fastingSugarMean st) (fastingSugarStd st)),
              Val (zOr0 (HBA1C r) (hba1cMean st) (hba1cStd st)),
              Val (zOr0 (Heart_Rate r) (heartRateMean st) (heartRateStd st)),
              Val (zOr0 (Waist_Hip_Ratio r) (waistHipRatioMean st) (waistHipRatioStd st))])
           (filter validRow ds))
   \<and> pLabels (processData M ds) = map (\<lambda>r. code_or_0 binaryMap (Diabetes r)) (filter validRow ds)
   \<and> (k \<notin> set objectPrototypeKeys \<longrightarrow>
        code_or_0 table k = (case map_of table k of None \<Rightarrow> Val (Fin 0) | Some c \<Rightarrow> Val (Fin c)))
   \<and> (Diabetes r \<notin> set objectPrototypeKeys \<longrightarrow>
        code_or_0 binaryMap (Diabetes r) = (if Diabetes r = ''Yes'' then Val (Fin 1) else Val (Fin 0)))
   \<and> genderMap = [(''Male'', 1), (''Female'', 0), (''Other'', 1 / 2)]
   \<and> binaryMap = [(''Yes'', 1), (''No'', 0)]
   \<and> activityMap = [(''Low'', 0), (''Medium'', 1), (''High'', 2)]
   \<and> dietMap = [(''Non-Vegetarian'', 0), (''Vegetarian'', 1), (''Vegan'', 2)]
   \<and> smokingMap = [(''Never'', 0), (''Current'', 2), (''Former'', 1)]
   \<and> alcoholMap = [(''None'', 0), (''Moderate'', 1), (''High'', 2)]
   \<and> stressMap = [(''Low'', 0), (''Medium'', 1), (''High'', 2)]
   \<and> length (pFeatures (processData M ds)) = length (filter validRow ds)
   \<and> length (pLabels (processData M ds)) = length (filter validRow ds)
   \<and> logged (processData M ds) = (length (filter validRow ds), length ds)"
proof -
  have labels: "pLabels (processData M ds)
      = map (\<lambda>r. code_or_0 binaryMap (Diabetes r)) (filter validRow ds)"
    by (simp add: pLabels_processData labelOf_def)
  have lens: "length (pFeatures (processData M ds)) = length (filter validRow ds)"
    "length (pLabels (processData M ds)) = length (filter validRow ds)"
    by (simp_all add: pFeatures_processData pLabels_processData)
  have passes: "ages (firstPass ds no_data) = map Age (filter validRow ds)"
    "bmis (firstPass ds no_data) = map BMI (filter validRow ds)"
    "cholesterols (firstPass ds no_data)
       = filter (\<lambda>v. \<not> isNaN v) (map Cholesterol_Level (filter validRow ds))"
    "fastingSugars (firstPass ds no_data)
       = filter (\<lambda>v. \<not> isNaN v) (map Fasting_Blood_Sugar (filter validRow ds))"
    "hba1cs (firstPass ds no_data) = filter (\<lambda>v. \<not> isNaN v) (map HBA1C (filter validRow ds))"
    "heartRates (firstPass ds no_data)
       = filter (\<lambda>v. \<not> isNaN v) (map Heart_Rate (filter validRow ds))"
    "waistHipRatios (firstPass ds no_data)
       = filter (\<lambda>v. \<not> isNaN v) (map Waist_Hip_Ratio (filter validRow ds))"
    by (simp_all add: firstPass_ages firstPass_bmis firstPass_cholesterols
        firstPass_fastingSugars firstPass_hba1cs firstPass_heartRates firstPass_waistHipRatios
        no_data_def)
  show ?thesis
    by (intro conjI impI validRow_iff passes pStats_explicit pFeatures_explicit labels
        code_or_0_own label_own tables_explicit lens logged_processData)
qed

text \<open>The doubles that the sums and quotients of the sample rows are.\<close>

lemma bitlen_numeral: "bitlen (numeral n) = 1 + bitlen (numeral n div 2)"
  by (subst bitlen.simps) simp

lemma bitlen_0: "bitlen 0 = 0"
  by (subst bitlen.simps) simp

lemma bitlen_1: "bitlen 1 = 1"
  by (subst bitlen.simps) (simp add: bitlen_0)

lemma quotient_of_halves:
  "quotient_of (55 / 2) = (55, 2)" "quotient_of (165 / 2) = (165, 2)"
  "quotient_of (275 / 2) = (275, 2)"
  by code_simp+

lemma fl64_0: "fl64 0 = Fin 0"
  by (simp add: fl64_def)

lemma fl64_integers:
  "fl64 50 = Fin 50" "fl64 100 = Fin 100" "fl64 150 = Fin 150" "fl64 200 = Fin 200"
  "fl64 250 = Fin 250" "fl64 55 = Fin 55" "fl64 110 = Fin 110" "fl64 400 = Fin 400"
  "fl64 600 = Fin 600" "fl64 800 = Fin 800" "fl64 1000 = Fin 1000"
  by (simp_all add: fl64_def ilog2_def div_half_even_def pow2_def Let_def bitlen_numeral
      bitlen_0 bitlen_1)

lemma fl64_halves:
  "fl64 (55 / 2) = Fin (55 / 2)" "fl64 (165 / 2) = Fin (165 / 2)"
  "fl64 (275 / 2) = Fin (275 / 2)"
  by (simp_all add: fl64_def quotient_of_halves ilog2_def div_half_even_def pow2_def Let_def
      bitlen_numeral bitlen_0 bitlen_1)

lemmas fl64_samples = fl64_0 fl64_integers fl64_halves

lemma validRow_sampleRow: "validRow sampleRow"
  by (simp add: validRow_def sampleRow_def)

lemma validRow_inheritedRow: "validRow inheritedRow"
  by (simp add: validRow_def inheritedRow_def sampleRow_def)

lemma filter_sampleDataset: "filter validRow sampleDataset = [sampleRow]"
  by (simp add: sampleDataset_def validRow_def sampleRow_def)

lemma firstPass_sampleRow:
  "firstPass [sampleRow] no_data =
     \<lparr>ages = [Fin 50], bmis = [Fin (55 / 2)], cholesterols = [Fin 200], fastingSugars = [],
      hba1cs = [], heartRates = [], waistHipRatios = []\<rparr>"
  by (simp add: invalidNumbers_def missingField_def isNaN_def sampleRow_def no_data_def
      push_number_def)

lemma firstPass_fiveRows:
  "firstPass fiveRows no_data =
     \<lparr>ages = [Fin 50, Fin 50, Fin 50, Fin 50, Fin 50],
      bmis = [Fin (55 / 2), Fin (55 / 2), Fin (55 / 2), Fin (55 / 2), Fin (55 / 2)],
      cholesterols = [Fin 200, Fin 200, Fin 200, Fin 200, Fin 200], fastingSugars = [],
      hba1cs = [], heartRates = [], waistHipRatios = []\<rparr>"
  by (simp add: fiveRows_def invalidNumbers_def missingField_def isNaN_def sampleRow_def
      no_data_def push_number_def)

lemma stats_sampleRow:
  "statsOf M (firstPass [sampleRow] no_data) =
     \<lparr>ageMean = Fin 50, ageStd = Fin 0, bmiMean = Fin (55 / 2), bmiStd = Fin 0,
      cholesterolMean = Fin 200, cholesterolStd = Fin 0,
      fastingSugarMean = Fin 0, fastingSugarStd = Fin 1,
      hba1cMean = Fin 0, hba1cStd = Fin 1,
      heartRateMean = Fin 0, heartRateStd = Fin 1,
      waistHipRatioMean = Fin 0, waistHipRatioStd = Fin 1\<rparr>"
  unfolding firstPass_sampleRow
  by (simp add: statsOf_def meanOf_def stdOf_def meanOpt_def stdOpt_def fl64_samples)

lemma stats_fiveRows:
  "statsOf M (firstPass fiveRows no_data) =
     \<lparr>ageMean = Fin 50, ageStd = Fin 0, bmiMean = Fin (55 / 2), bmiStd = Fin 0,
      cholesterolMean = Fin 200, cholesterolStd = Fin 0,
      fastingSugarMean = Fin 0, fastingSugarStd = Fin 1,
      hba1cMean = Fin 0, hba1cStd = Fin 1,
      heartRateMean = Fin 0, heartRateStd = Fin 1,
      waistHipRatioMean = Fin 0, waistHipRatioStd = Fin 1\<rparr>"
  unfolding firstPass_fiveRows
  by (simp add: statsOf_def meanOf_def stdOf_def meanOpt_def stdOpt_def fl64_samples)

lemma codes_sampleRow:
  "code_or_0 genderMap ''Male'' = Val (Fin 1)" "code_or_0 binaryMap ''Yes'' = Val (Fin 1)"
  "code_or_0 activityMap ''Low'' = Val (Fin 0)" "code_or_0 dietMap ''Vegan'' = Val (Fin 2)"
  "code_or_0 smokingMap ''Never'' = Val (Fin 0)" "code_or_0 alcoholMap ''None'' = Val (Fin 0)"
  "code_or_0 stressMap ''Low'' = Val (Fin 0)" "code_or_0 binaryMap ''No'' = Val (Fin 0)"
  by (simp_all add: code_or_0_def genderMap_def binaryMap_def activityMap_def dietMap_def
      smokingMap_def alcoholMap_def stressMap_def)

lemma feature_zero_std:
  "featureOf
     \<lparr>ageMean = Fin 50, ageStd = Fin 0, bmiMean = Fin (55 / 2), bmiStd = Fin 0,
      cholesterolMean = Fin 200, cholesterolStd = Fin 0,
      fastingSugarMean = Fin 0, fastingSugarStd = Fin 1,
      hba1cMean = Fin 0, hba1cStd = Fin 1,
      heartRateMean = Fin 0, heartRateStd = Fin 1,
      waistHipRatioMean = Fin 0, waistHipRatioStd = Fin 1\<rparr> sampleRow =
      [Val NaN, Val (Fin 1), Val NaN, Val (Fin 1), Val (Fin 0), Val (Fin 2), Val (Fin 0),
       Val (Fin 0), Val (Fin 0), Val (Fin 0), Val NaN, Val (Fin 0), Val (Fin 0), Val (Fin 0),
       Val (Fin 0)]"
  by (simp add: featureOf_def sampleRow_def normalizeOpt_def normalize_def isNaN_def
      codes_sampleRow fl64_samples)

theorem C9_two_pass_witness:
  "''Yes'' \<notin> set objectPrototypeKeys
   \<and> Diabetes sampleRow \<notin> set objectPrototypeKeys
   \<and> code_or_0 binaryMap ''Yes'' = Val (Fin 1)
   \<and> ages (firstPass sampleDataset no_data) = [Fin 50]
   \<and> cholesterols (firstPass sampleDataset no_data) = [Fin 200]
   \<and> fastingSugars (firstPass sampleDataset no_data) = []
   \<and> length (pFeatures (processData roundedMath sampleDataset)) = 1
   \<and> pLabels (processData roundedMath sampleDataset) = [Val (Fin 1)]
   \<and> logged (processData roundedMath sampleDataset) = (1, 3)"
proof -
  note t = C9_two_pass [of sampleRow sampleDataset roundedMath "''Yes''" binaryMap]
  have k: "''Yes'' \<notin> set objectPrototypeKeys"
    by (simp add: objectPrototypeKeys_def)
  have d: "Diabetes sampleRow \<notin> set objectPrototypeKeys"
    by (simp add: objectPrototypeKeys_def sampleRow_def)
  from t have "''Yes'' \<notin> set objectPrototypeKeys \<longrightarrow>
      code_or_0 binaryMap ''Yes''
        = (case map_of binaryMap ''Yes'' of None \<Rightarrow> Val (Fin 0) | Some c \<Rightarrow> Val (Fin c))"
    by (elim conjE) assumption
  with k have c: "code_or_0 binaryMap ''Yes'' = Val (Fin 1)"
    by (simp add: binaryMap_def)
  from t have "Diabetes sampleRow \<notin> set objectPrototypeKeys \<longrightarrow>
      code_or_0 binaryMap (Diabetes sampleRow)
        = (if Diabetes sampleRow = ''Yes'' then Val (Fin 1) else Val (Fin 0))"
    by (elim conjE) assumption
  with d have l: "code_or_0 binaryMap (Diabetes sampleRow) = Val (Fin 1)"
    by (simp add: sampleRow_def)
  from t have "ages (firstPass sampleDataset no_data) = map Age (filter validRow sampleDataset)"
    by (elim conjE) assumption
  then have a: "ages (firstPass sampleDataset no_data) = [Fin 50]"
    by (simp add: filter_sampleDataset) (simp add: sampleRow_def)
  from t have "cholesterols (firstPass sampleDataset no_data)
      = filter (\<lambda>v. \<not> isNaN v) (map Cholesterol_Level (filter validRow sampleDataset))"
    by (elim conjE) assumption
  then have ch: "cholesterols (firstPass sampleDataset no_data) = [Fin 200]"
    by (simp add: filter_sampleDataset isNaN_def) (simp add: sampleRow_def)
  from t have "fastingSugars (firstPass sampleDataset no_data)
      = filter (\<lambda>v. \<not> isNaN v) (map Fasting_Blood_Sugar (filter validRow sampleDataset))"
    by (elim conjE) assumption
  then have fs: "fastingSugars (firstPass sampleDataset no_data) = []"
    by (simp add: filter_sampleDataset isNaN_def) (simp add: sampleRow_def)
  from t have "length (pFeatures (processData roundedMath sampleDataset))
      = length (filter validRow sampleDataset)"
    by (elim conjE) assumption
  then have n: "length (pFeatures (processData roundedMath sampleDataset)) = 1"
    by (simp add: filter_sampleDataset)
  from t have "pLabels (processData roundedMath sampleDataset)
      = map (\<lambda>r. code_or_0 binaryMap (Diabetes r)) (filter validRow sampleDataset)"
    by (elim conjE) assumption
  with l have ls: "pLabels (processData roundedMath sampleDataset) = [Val (Fin 1)]"
    by (simp add: filter_sampleDataset)
  from t have "logged (processData roundedMath sampleDataset)
      = (length (filter validRow sampleDataset), length sampleDataset)"
    by (elim conjE) assumption
  then have lg: "logged (processData roundedMath sampleDataset) = (1, 3)"
    by (simp add: filter_sampleDataset) (simp add: sampleDataset_def)
  from k d c a ch fs n ls lg show ?thesis
    by (intro conjI)
qed

text \<open>
  C9, as the claim states it, fails on a valid row whose \<open>Diabetes\<close> cell reads
  \<open>constructor\<close>: its label is the inherited member of that name, neither 1 nor 0.
  And on a dataset of one valid and two invalid rows the log line gives 1 and 3, the
  valid rows and all rows, not the number of invalid rows.
\<close>

theorem C9_counterexample:
  "validRow inheritedRow
   \<and> Diabetes inheritedRow \<noteq> ''Yes''
   \<and> pLabels (processData roundedMath [inheritedRow]) = [Inherited ''constructor'']
   \<and> pLabels (processData roundedMath [inheritedRow]) \<noteq> [Val (Fin 0)]
   \<and> logged (processData roundedMath sampleDataset) = (1, 3)"
proof -
  have l: "pLabels (processData roundedMath [inheritedRow]) = [Inherited ''constructor'']"
    by (simp add: pLabels_processData validRow_inheritedRow labelOf_def)
      (simp add: inheritedRow_def code_or_0_def binaryMap_def objectPrototypeKeys_def)
  have g: "logged (processData roundedMath sampleDataset) = (1, 3)"
    by (simp add: logged_processData filter_sampleDataset) (simp add: sampleDataset_def)
  have y: "Diabetes inheritedRow \<noteq> ''Yes''"
    by (simp add: inheritedRow_def)
  from validRow_inheritedRow y l g show ?thesis
    by simp
qed

text \<open>
  C8. On a dataset of one valid row, and on one of five equal valid rows, the standard
  deviations of age, BMI and cholesterol are computed as 0 and are used as the divisors:
  nothing substitutes 1, and the three normalised features are \<open>0 / 0 = NaN\<close>. The
  substitute 1 is used only for an optional column without any number.
\<close>

theorem C8_zero_std:
  "ageStd (pStats (processData M [sampleRow])) = Fin 0
   \<and> bmiStd (pStats (processData M [sampleRow])) = Fin 0
   \<and> cholesterolStd (pStats (processData M [sampleRow])) = Fin 0
   \<and> fastingSugarStd (pStats (processData M [sampleRow])) = Fin 1
   \<and> pFeatures (processData M [sampleRow]) =
       [[Val NaN, Val (Fin 1), Val NaN, Val (Fin 1), Val (Fin 0), Val (Fin 2), Val (Fin 0),
         Val (Fin 0), Val (Fin 0), Val (Fin 0), Val NaN, Val (Fin 0), Val (Fin 0), Val (Fin 0),
         Val (Fin 0)]]
   \<and> ageStd (pStats (processData M fiveRows)) = Fin 0
   \<and> bmiStd (pStats (processData M fiveRows)) = Fin 0
   \<and> cholesterolStd (pStats (processData M fiveRows)) = Fin 0
   \<and> pFeatures (processData M fiveRows) =
       replicate 5
         [Val NaN, Val (Fin 1), Val NaN, Val (Fin 1), Val (Fin 0), Val (Fin 2), Val (Fin 0),
          Val (Fin 0), Val (Fin 0), Val (Fin 0), Val NaN, Val (Fin 0), Val (Fin 0), Val (Fin 0),
          Val (Fin 0)]"
proof -
  have one: "filter validRow [sampleRow] = [sampleRow]"
    by (simp add: validRow_sampleRow)
  have five: "filter validRow fiveRows = [sampleRow, sampleRow, sampleRow, sampleRow, sampleRow]"
    by (simp add: fiveRows_def validRow_sampleRow)
  have f1: "pFeatures (processData M [sampleRow]) =
      [[Val NaN, Val (Fin 1), Val NaN, Val (Fin 1), Val (Fin 0), Val (Fin 2), Val (Fin 0),
        Val (Fin 0), Val (Fin 0), Val (Fin 0), Val NaN, Val (Fin 0), Val (Fin 0), Val (Fin 0),
        Val (Fin 0)]]"
    unfolding pFeatures_processData stats_sampleRow one
    by (simp only: list.map feature_zero_std)
  have f5: "pFeatures (processData M fiveRows) =
      replicate 5
        [Val NaN, Val (Fin 1), Val NaN, Val (Fin 1), Val (Fin 0), Val (Fin 2), Val (Fin 0),
         Val (Fin 0), Val (Fin 0), Val (Fin 0), Val NaN, Val (Fin 0), Val (Fin 0), Val (Fin 0),
         Val (Fin 0)]"
    unfolding pFeatures_processData stats_fiveRows five
    by (simp only: list.map feature_zero_std) (simp add: numeral_eq_Suc)
  have s1: "pStats (processData M [sampleRow]) = statsOf M (firstPass [sampleRow] no_data)"
    by (rule pStats_processData)
  have s5: "pStats (processData M fiveRows) = statsOf M (firstPass fiveRows no_data)"
    by (rule pStats_processData)
  show ?thesis
    unfolding f1 f5 s1 s5 stats_sampleRow stats_fiveRows by simp
qed

section \<open>Encoding at training and at inference\<close>

text \<open>
  C4. The handler of \<open>/api/predict\<close> reads the tables that the serving side's training
  reads, and their key for the middle activity is \<open>Medium\<close>: the profile's
  \<open>Moderate\<close> is not a key, is not remapped, and is encoded as 0, the code of
  \<open>Low\<close>. The tables of \<open>useTrainedModel\<close> give \<open>Moderate\<close> the code 1, but they
  are not the tables of that training: those give 1 to \<open>Medium\<close> and 0.5 to the gender
  \<open>Other\<close>, where \<open>useTrainedModel\<close> gives 0 to both.
\<close>

theorem C4_moderate_encoding:
  "api_predict_features st (d\<lparr>physicalActivity := ''Moderate''\<rparr>) ! 4 = Val (Fin 0)
   \<and> api_predict_features st (d\<lparr>physicalActivity := ''Low''\<rparr>) ! 4 = Val (Fin 0)
   \<and> api_predict_features st (d\<lparr>physicalActivity := ''High''\<rparr>) ! 4 = Val (Fin 2)
   \<and> map_of activityMap ''Moderate'' = None
   \<and> featureOf st (r\<lparr>Physical_Activity := ''Medium''\<rparr>) ! 4 = Val (Fin 1)
   \<and> featureOf st (r\<lparr>Physical_Activity := ''Moderate''\<rparr>) ! 4 = Val (Fin 0)
   \<and> useTrainedModel_features (d\<lparr>physicalActivity := ''Moderate''\<rparr>) ! 4 = Val (Fin 1)
   \<and> useTrainedModel_features (d\<lparr>physicalActivity := ''Medium''\<rparr>) ! 4 = Val (Fin 0)
   \<and> featureOf st (r\<lparr>Gender := ''Other''\<rparr>) ! 1 = Val (Fin 0.5)
   \<and> useTrainedModel_features (d\<lparr>gender := ''Other''\<rparr>) ! 1 = Val (Fin 0)"
  by (simp add: api_predict_features_def featureOf_def useTrainedModel_features_def
      code_or_0_def activityMap_def client_activityMap_def genderMap_def client_genderMap_def
      objectPrototypeKeys_def)

end
